theory Spec2Isabelle
  imports Complex_Main
begin

section \<open>Conventions of the embedding\<close>

text \<open>
  The program is a chain of Python classes whose constructors call pure methods on
  floating-point numbers.  Every method becomes a HOL function of the same name; a Python
  \<^verbatim>\<open>float\<close> (and an \<^verbatim>\<open>int\<close> used as a number) is a \<^typ>\<open>real\<close>, so the
  arithmetic below is the exact arithmetic that the floating-point code approximates.
  A method that can raise returns \<open>error + 'a\<close>, with \<open>Inl\<close> the exception; a method
  that can return Python's \<^verbatim>\<open>None\<close> returns an \<open>option\<close>.
\<close>

datatype error =
    ValueError            \<comment> \<open>raised explicitly by the source\<close>
  | ZeroDivisionError     \<comment> \<open>float division by zero\<close>
  | UnboundLocalError     \<comment> \<open>a local variable is read before any branch assigned it\<close>
  | IndexError            \<comment> \<open>list index out of range\<close>
  | TypeError             \<comment> \<open>arithmetic on \<^verbatim>\<open>None\<close>\<close>
  | AttributeError        \<comment> \<open>an attribute is read that no branch has set\<close>
  | NotFinite             \<comment> \<open>no exception: numpy yields \<^verbatim>\<open>nan\<close> or \<^verbatim>\<open>inf\<close> with a warning\<close>
  | ComplexValue          \<comment> \<open>no exception: a negative float to a fractional power is complex\<close>

text \<open>
  The last two are not exceptions.  Where the Python run leaves the real numbers the model
  stops with one of them, since no \<^typ>\<open>real\<close> is the value of the run from there on.
\<close>

text \<open>Sequencing: an exception raised by the first computation ends the whole one.\<close>

definition and_then :: "error + 'a \<Rightarrow> ('a \<Rightarrow> error + 'b) \<Rightarrow> error + 'b" where
  "and_then m f = (case m of Inl e \<Rightarrow> Inl e | Inr v \<Rightarrow> f v)"

definition py_div :: "real \<Rightarrow> real \<Rightarrow> error + real" where
  "py_div x y = (if y = 0 then Inl ZeroDivisionError else Inr (x / y))"

text \<open>
  Arithmetic on a \<^verbatim>\<open>numpy.float64\<close>: \<^verbatim>\<open>np.sqrt\<close> of a negative number is
  \<^verbatim>\<open>nan\<close>, and a division by zero is \<^verbatim>\<open>inf\<close> or \<^verbatim>\<open>nan\<close>.
\<close>

definition np_sqrt :: "real \<Rightarrow> error + real" where
  "np_sqrt x = (if x < 0 then Inl NotFinite else Inr (sqrt x))"

definition np_div :: "real \<Rightarrow> real \<Rightarrow> error + real" where
  "np_div x y = (if y = 0 then Inl NotFinite else Inr (x / y))"

text \<open>
  \<^verbatim>\<open>x ** y\<close> for the exponents of the source that are positive and not whole numbers
  (0.2, 0.3, 0.5, 0.7, 1.2 and 1/3).
\<close>

definition py_pow :: "real \<Rightarrow> real \<Rightarrow> error + real" where
  "py_pow x y = (if x < 0 then Inl ComplexValue else Inr (x powr y))"

definition py_index :: "'a list \<Rightarrow> nat \<Rightarrow> error + 'a" where
  "py_index xs i = (if i < length xs then Inr (xs ! i) else Inl IndexError)"

section \<open>B0\_Cross\_section: nominal cover\<close>

definition get_c_min_b :: "real \<Rightarrow> real" where
  "get_c_min_b bar_diameter = max bar_diameter 10"

definition get_c_min_dur :: "string \<Rightarrow> real \<Rightarrow> error + real" where
  "get_c_min_dur exposure_class c_min_b =
     (if exposure_class = ''X0'' then Inr c_min_b
      else if exposure_class = ''XC1'' then Inr 15
      else if exposure_class \<in> set [''XC2'', ''XC3'', ''XC4''] then Inr 25
      else if exposure_class \<in> set [''XD1'', ''XS1'', ''XD2'', ''XD3'', ''XS2''] then Inr 40
      else if exposure_class = ''XS3'' then Inr 50
      else Inl ValueError)"

definition calculate_cnom :: "real \<Rightarrow> real \<Rightarrow> real" where
  "calculate_cnom c_min_b c_min_dur =
     (let c_min = max (max c_min_b c_min_dur) 10;
          delta_c_dev = 10
      in c_min + delta_c_dev)"

text \<open>
  The three cover attributes as \<^verbatim>\<open>Cross_section.__init__\<close> computes them, in its order:
  \<^verbatim>\<open>c_min_b\<close>, \<^verbatim>\<open>c_min_dur\<close>, \<^verbatim>\<open>cnom\<close>.
\<close>

record cover =
  cover_c_min_b :: real
  cover_c_min_dur :: real
  cover_cnom :: real

definition cross_section_cover :: "string \<Rightarrow> real \<Rightarrow> error + cover" where
  "cross_section_cover exposure_class bar_diameter =
     (let b = get_c_min_b bar_diameter in
      and_then (get_c_min_dur exposure_class b) (\<lambda>dur.
        Inr \<lparr>cover_c_min_b = b, cover_c_min_dur = dur, cover_cnom = calculate_cnom b dur\<rparr>))"

text \<open>The exposure classes the input file lists as admissible.\<close>

definition exposure_classes :: "string list" where
  "exposure_classes =
     [''X0'', ''XC1'', ''XC2'', ''XC3'', ''XC4'', ''XD1'', ''XS1'', ''XD2'', ''XD3'', ''XS2'', ''XS3'']"

section \<open>B0\_Material: prestressing strand\<close>

text \<open>
  \<^verbatim>\<open>get_index_prestress\<close>: the name is a string or \<^verbatim>\<open>None\<close>; a \<^verbatim>\<open>match\<close> with no
  matching case falls through, and the method then ends without a \<^verbatim>\<open>return\<close>, which
  yields \<^verbatim>\<open>None\<close>.
\<close>

definition get_index_prestress :: "string option \<Rightarrow> real \<Rightarrow> nat option" where
  "get_index_prestress prestress_name prestress_diameter =
     (if prestress_name = Some ''Y1860S3'' then
        (if prestress_diameter = 6.5 then Some 1
         else if prestress_diameter = 6.8 then Some 2
         else if prestress_diameter = 7.5 then Some 3
         else None)
      else if prestress_name = Some ''Y1860S7'' then
        (if prestress_diameter = 7.0 then Some 4
         else if prestress_diameter = 9.0 then Some 5
         else if prestress_diameter = 11.0 then Some 6
         else if prestress_diameter = 12.5 then Some 7
         else if prestress_diameter = 13.0 then Some 8
         else if prestress_diameter = 15.2 then Some 9
         else if prestress_diameter = 16.0 then Some 10
         else None)
      else if prestress_name = Some ''Y1770S7'' then
        (if prestress_diameter = 15.2 then Some 11
         else if prestress_diameter = 16.0 then Some 12
         else if prestress_diameter = 18.0 then Some 13
         else None)
      else if prestress_name = None then None
      else
        (if prestress_name = Some ''Y19060S3'' then Some 0
         else if prestress_name = Some ''Y1860S7G'' then Some 14
         else if prestress_name = Some ''Y1820S7G'' then Some 15
         else if prestress_name = Some ''Y1700S7G'' then Some 16
         else if prestress_name = Some ''Y2160S3'' then Some 17
         else if prestress_name = Some ''Y2060S3'' then Some 18
         else if prestress_name = Some ''Y1960S3'' then Some 19
         else if prestress_name = Some ''Y2160S7'' then Some 20
         else if prestress_name = Some ''Y2060S7'' then Some 21
         else if prestress_name = Some ''Y1960S7'' then Some 22
         else None))"

definition get_fpk :: "nat option \<Rightarrow> error + real" where
  "get_fpk index_prestress =
     (case index_prestress of
        None \<Rightarrow> Inr 0
      | Some i \<Rightarrow>
          py_index [1960, 1860, 1860, 1860, 1860, 1860, 1860, 1860, 1860, 1860, 1860, 1770,
                    1770, 1770, 1860, 1820, 1700, 2160, 2060, 1960, 2160, 2060, 1960] i)"

definition get_Ap :: "nat option \<Rightarrow> error + real" where
  "get_Ap index_prestress =
     (case index_prestress of
        None \<Rightarrow> Inr 0
      | Some i \<Rightarrow>
          py_index [13.6, 21.1, 23.4, 20, 30, 50, 75, 93, 100,
                    140, 150, 140, 150, 200, 112, 165, 223, 13.6, 13.6, 21.2, 28.2, 30, 50] i)"

definition get_Fpk :: "nat option \<Rightarrow> error + real" where
  "get_Fpk index_prestress =
     (case index_prestress of
        None \<Rightarrow> Inr 0
      | Some i \<Rightarrow>
          py_index [26.6, 39.2, 43.5, 54, 56, 93, 140, 173, 186, 260, 279, 248, 265, 354, 209, 300,
                    380, 29.4, 28, 41.4, 60.9, 62, 98] i)"

definition get_Fp01k :: "nat option \<Rightarrow> error + real" where
  "get_Fp01k index_prestress =
     (case index_prestress of
        None \<Rightarrow> Inr 0
      | Some i \<Rightarrow>
          py_index [22.9, 33.8, 37.4, 46.4, 48, 80, 120, 149, 160, 224, 240, 213, 228, 304, 180, 258,
                    327, 26.2, 24.1, 35.6, 52.4, 53, 84] i)"

definition calculate_fp01k :: "real \<Rightarrow> real \<Rightarrow> nat option \<Rightarrow> error + real" where
  "calculate_fp01k Fp01k Ap index_prestress =
     (case index_prestress of
        None \<Rightarrow> Inr 0
      | Some i \<Rightarrow> py_div (Fp01k * 10 ^ 3) Ap)"

definition gamma_prestressed_reinforcement :: real where
  "gamma_prestressed_reinforcement = 1.15"

definition calculate_fpd :: "real \<Rightarrow> nat option \<Rightarrow> error + real" where
  "calculate_fpd fp01k index_prestress =
     (case index_prestress of
        None \<Rightarrow> Inr 0
      | Some i \<Rightarrow> py_div fp01k gamma_prestressed_reinforcement)"

text \<open>
  The prestressed-reinforcement block of \<^verbatim>\<open>Material.__init__\<close>: the index, then the six
  properties, each computed from the index and from the properties before it.
\<close>

record prestress_properties =
  strand_index :: "nat option"
  strand_fpk :: real
  strand_Ap :: real
  strand_Fpk :: real
  strand_Fp01k :: real
  strand_fp01k :: real
  strand_fpd :: real

definition material_prestress :: "string option \<Rightarrow> real \<Rightarrow> error + prestress_properties" where
  "material_prestress prestress_name prestress_diameter =
     (let ix = get_index_prestress prestress_name prestress_diameter in
      and_then (get_fpk ix) (\<lambda>v_fpk.
      and_then (get_Ap ix) (\<lambda>v_Ap.
      and_then (get_Fpk ix) (\<lambda>v_Fpk.
      and_then (get_Fp01k ix) (\<lambda>v_Fp01k.
      and_then (calculate_fp01k v_Fp01k v_Ap ix) (\<lambda>v_fp01k.
      and_then (calculate_fpd v_fp01k ix) (\<lambda>v_fpd.
        Inr \<lparr>strand_index = ix, strand_fpk = v_fpk, strand_Ap = v_Ap, strand_Fpk = v_Fpk,
             Fp01k = v_Fp01k, strand_fp01k = v_fp01k, strand_fpd = v_fpd\<rparr>)))))))"




section \<open>F1\_SLS\_Deflection: the deflection control\<close>

definition control_deflection :: "real \<Rightarrow> real \<Rightarrow> bool" where
  "control_deflection beam_length total_deflection =
     (let max_deflection = (beam_length * 1000) / 250 in
      if max_deflection > total_deflection then True else False)"

section \<open>E1\_SLS\_Crack and E2\_SLS\_Crack: crack control\<close>

definition calculate_kc :: "real \<Rightarrow> real \<Rightarrow> error + real" where
  "calculate_kc cnom c_min_dur =
     and_then (py_div cnom c_min_dur) (\<lambda>q. Inr (min q 1.3))"

definition get_limit_value :: "string \<Rightarrow> real \<Rightarrow> error + real" where
  "get_limit_value exposure_class k_c =
     (let list_of_exp_class =
            [''XC1'', ''XC2'', ''XC3'', ''XC4'', ''XD1'', ''XD2'', ''XD3'', ''XS1'', ''XS2'', ''XS3'']
      in if exposure_class = ''X0'' then Inr 0.4
         else if exposure_class \<in> set list_of_exp_class then Inr (0.3 * k_c)
         else Inl ValueError)"

text \<open>
  Table 7.2N as \<^verbatim>\<open>calculate_maximal_bar_diameter\<close> writes it: the matrix of bar diameters,
  the vector \<^verbatim>\<open>a\<close> of reinforcement stresses and the vector \<^verbatim>\<open>w\<close> of crack widths.
\<close>

definition bar_diameter_matrix :: "real list list" where
  "bar_diameter_matrix =
     [[40, 32, 20, 16, 12, 10, 8, 6], [32, 25, 16, 12, 10, 8, 6, 5], [25, 16, 12, 8, 6, 5, 4, 0]]"

definition stress_vector :: "real list" where
  "stress_vector = [160, 200, 240, 280, 320, 360, 400, 450]"

definition crack_width_vector :: "real list" where
  "crack_width_vector = [0.4, 0.3, 0.2]"

text \<open>
  The local variable \<^verbatim>\<open>max_bar_diameter\<close> is threaded through the two loops as an
  \<open>option\<close>: \<open>None\<close> while no assignment has run.  \<open>column_step\<close> is the body of the inner
  loop at index \<open>i\<close>, \<open>row_step\<close> the body of the outer loop at index \<open>k\<close>.  All list
  reads are inside the lists, and every divisor is a difference of two distinct table
  entries.
\<close>

definition column_step :: "real \<Rightarrow> real \<Rightarrow> nat \<Rightarrow> nat \<Rightarrow> real option \<Rightarrow> real option" where
  "column_step w_max sigma k i max_bar_diameter =
     (let D = bar_diameter_matrix; a = stress_vector; w = crack_width_vector;
          x1 = D ! k ! i * (w ! (k + 1) - w_max) / (w ! (k + 1) - w ! k)
               + D ! (k + 1) ! i * (w_max - w ! k) / (w ! (k + 1) - w ! k);
          x2 = D ! k ! (i + 1) * (w ! (k + 1) - w_max) / (w ! (k + 1) - w ! k)
               + D ! (k + 1) ! (i + 1) * (w_max - w ! k) / (w ! (k + 1) - w ! k)
      in if a ! i \<le> sigma \<and> sigma < a ! (i + 1)
         then Some (x1 * (a ! (i + 1) - sigma) / (a ! (i + 1) - a ! i)
                    + x2 * (sigma - a ! i) / (a ! (i + 1) - a ! i))
         else max_bar_diameter)"

definition row_step :: "real \<Rightarrow> real \<Rightarrow> nat \<Rightarrow> real option \<Rightarrow> real option" where
  "row_step w_max sigma k max_bar_diameter =
     (let w = crack_width_vector in
      if w ! k \<ge> w_max \<and> w_max > w ! (k + 1)
      then fold (column_step w_max sigma k) [0 ..< length stress_vector - 1] max_bar_diameter
      else max_bar_diameter)"

text \<open>
  The result is \<open>Inr None\<close> when the method returns \<^verbatim>\<open>None\<close>, \<open>Inr (Some d)\<close> when it
  returns the number \<open>d\<close>, and \<open>Inl UnboundLocalError\<close> when the final
  \<^verbatim>\<open>return max_bar_diameter\<close> reads a variable that no branch has assigned.  The method is
  the same, line for line, in \<^verbatim>\<open>Crack_control\<close> and \<^verbatim>\<open>Crack_control_prestressed\<close>.
\<close>

definition calculate_maximal_bar_diameter :: "real \<Rightarrow> real \<Rightarrow> error + real option" where
  "calculate_maximal_bar_diameter w_max sigma =
     (let sigma' = (if sigma < 160 then Some 160 else if sigma > 450 then None else Some sigma)
      in case sigma' of
           None \<Rightarrow> Inr None
         | Some s \<Rightarrow>
             (case fold (row_step w_max s) [0 ..< length crack_width_vector - 1] None of
                None \<Rightarrow> Inl UnboundLocalError
              | Some d \<Rightarrow> Inr (Some d)))"

text \<open>\<^verbatim>\<open>control_of_bar_diameter\<close> returns a boolean or, for \<^verbatim>\<open>None\<close>, a message string.\<close>

datatype control = Boolean bool | Message string

definition control_of_bar_diameter :: "real \<Rightarrow> real option \<Rightarrow> control" where
  "control_of_bar_diameter bar_diameter max_bar_diameter =
     (case max_bar_diameter of
        None \<Rightarrow>
          Message ''the stress is bigger that the maximum, and the crack control could not be executed''
      | Some m \<Rightarrow> if bar_diameter < m then Boolean True else Boolean False)"

text \<open>
  Python's \<^verbatim>\<open>round(x, 1)\<close> on the exact value: to the nearest tenth, a tie to the even
  tenth.
\<close>

definition py_round1 :: "real \<Rightarrow> real" where
  "py_round1 x =
     (let y = x * 10; f = \<lfloor>y\<rfloor>; r = y - of_int f
      in of_int (if r < 1 / 2 then f else if r > 1 / 2 then f + 1
                 else if even f then f else f + 1) / 10)"

text \<open>
  \<^verbatim>\<open>calculate_safety_degree\<close> of \<^verbatim>\<open>Crack_control\<close>: \<^verbatim>\<open>None\<close> for \<^verbatim>\<open>None\<close>, a
  percentage otherwise.
\<close>

definition calculate_safety_degree :: "real \<Rightarrow> real option \<Rightarrow> error + real option" where
  "calculate_safety_degree bar_diameter max_bar_diameter =
     (case max_bar_diameter of
        None \<Rightarrow> Inr None
      | Some m \<Rightarrow> and_then (py_div m bar_diameter) (\<lambda>q. Inr (Some (py_round1 (q * 100)))))"

text \<open>
  The last three attributes that \<^verbatim>\<open>Crack_control.__init__\<close> sets, from the crack-width limit
  and the reinforcement stress computed before them.  An exception in any of the three calls
  leaves the constructor, and with it the constructor of the beam that called it.
\<close>

record crack_check_result =
  crack_max_bar_diameter :: "real option"
  crack_control_bar_diameter :: control
  crack_safety :: "real option"

definition crack_check :: "real \<Rightarrow> real \<Rightarrow> real \<Rightarrow> error + crack_check_result" where
  "crack_check crack_width sigma_s bar_diameter =
     and_then (calculate_maximal_bar_diameter crack_width sigma_s) (\<lambda>m.
     and_then (calculate_safety_degree bar_diameter m) (\<lambda>s.
       Inr \<lparr>crack_max_bar_diameter = m,
            crack_control_bar_diameter = control_of_bar_diameter bar_diameter m,
            crack_safety = s\<rparr>))"

text \<open>
  The crack-width limit as the constructors reach it: the cover of the cross-section (built
  from the same exposure class and bar diameter), then \<^verbatim>\<open>calculate_kc\<close> and
  \<^verbatim>\<open>get_limit_value\<close>.
\<close>

definition crack_width_limit :: "string \<Rightarrow> real \<Rightarrow> error + real" where
  "crack_width_limit exposure_class bar_diameter =
     and_then (cross_section_cover exposure_class bar_diameter) (\<lambda>c.
     and_then (calculate_kc (cover_cnom c) (cover_c_min_dur c)) (\<lambda>k_c.
       get_limit_value exposure_class k_c))"

text \<open>
  The crack-width check of one analysis, for a reinforcement stress \<open>sigma_s\<close> that the
  constructor has already computed.
\<close>

definition crack_control :: "string \<Rightarrow> real \<Rightarrow> real \<Rightarrow> error + crack_check_result" where
  "crack_control exposure_class bar_diameter sigma_s =
     and_then (crack_width_limit exposure_class bar_diameter) (\<lambda>crack_width.
       crack_check crack_width sigma_s bar_diameter)"

section \<open>I2\_SLS\_Stress: the stress control\<close>

text \<open>
  The loop of the uncracked branch over the fibre stresses (bottom, top, prestress level as
  \<^verbatim>\<open>Uncracked_stress\<close> builds the list).  Each of the four branches of its body is a
  \<^verbatim>\<open>return\<close>, so the body runs for the first fibre only; for an empty list the loop does
  not run and the method ends without a value, which is \<^verbatim>\<open>None\<close>.
\<close>

fun control_uncracked :: "real \<Rightarrow> real \<Rightarrow> real list \<Rightarrow> bool option" where
  "control_uncracked allowed_pressure allowed_tension [] = None"
| "control_uncracked allowed_pressure allowed_tension (sigma_i # later_fibres) =
     (if sigma_i < 0 then
        (if allowed_pressure < sigma_i then Some True else Some False)
      else
        (if allowed_tension > sigma_i then Some True else Some False))"

definition control_stress :: "real \<Rightarrow> real \<Rightarrow> bool \<Rightarrow> real \<Rightarrow> real list \<Rightarrow> bool option" where
  "control_stress fck fctm control_M_cr sigma_c_cracked sigma_c_uncracked =
     (let allowed_pressure = 0.6 * fck;
          allowed_tension = fctm
      in if control_M_cr = True then
           (if sigma_c_cracked < 0 then
              (if allowed_pressure < sigma_c_cracked then Some True else Some False)
            else
              (if allowed_tension > sigma_c_cracked then Some True else Some False))
         else control_uncracked allowed_pressure allowed_tension sigma_c_uncracked)"

section \<open>B0\_Material: concrete and reinforcing steel\<close>

definition get_index :: "string \<Rightarrow> error + nat" where
  "get_index concrete_class =
     (if concrete_class = ''C12'' then Inr 0
      else if concrete_class = ''C16'' then Inr 1
      else if concrete_class = ''C20'' then Inr 2
      else if concrete_class = ''C25'' then Inr 3
      else if concrete_class = ''C30'' then Inr 4
      else if concrete_class = ''C35'' then Inr 5
      else if concrete_class = ''C40'' then Inr 6
      else if concrete_class = ''C45'' then Inr 7
      else if concrete_class = ''C50'' then Inr 8
      else if concrete_class = ''C55'' then Inr 9
      else if concrete_class = ''C60'' then Inr 10
      else if concrete_class = ''C70'' then Inr 11
      else if concrete_class = ''C80'' then Inr 12
      else if concrete_class = ''C90'' then Inr 13
      else Inl ValueError)"

definition get_fck :: "nat \<Rightarrow> error + real" where
  "get_fck index = py_index [12, 16, 20, 25, 30, 35, 40, 45, 50, 55, 60, 70, 80, 90] index"

definition get_fcm :: "nat \<Rightarrow> error + real" where
  "get_fcm index = py_index [20, 24, 28, 33, 38, 43, 48, 53, 58, 63, 68, 78, 88, 98] index"

definition get_fctm :: "nat \<Rightarrow> error + real" where
  "get_fctm index =
     py_index [1.6, 1.9, 2.2, 2.6, 2.9, 3.2, 3.5, 3.8, 4.1, 4.2, 4.4, 4.6, 4.8, 5.0] index"

definition get_eps_cu3 :: "nat \<Rightarrow> error + real" where
  "get_eps_cu3 index =
     and_then
       (py_index [3.5, 3.5, 3.5, 3.5, 3.5, 3.5, 3.5, 3.5, 3.5, 3.1, 2.9, 2.7, 2.6, 2.6] index)
       (\<lambda>v. Inr (v / 1000))"

definition calculate_lambda :: "real \<Rightarrow> error + real" where
  "calculate_lambda fck =
     (if fck \<le> 50 then Inr 0.8
      else if 50 < fck \<and> fck \<le> 90 then Inr (0.8 - (fck / 50) / 400)
      else Inl AttributeError)"

definition calculate_netta :: "real \<Rightarrow> error + real" where
  "calculate_netta fck =
     (if fck \<le> 50 then Inr 1.0
      else if 50 < fck \<and> fck \<le> 90 then Inr (1.0 - (fck / 50) / 200)
      else Inl AttributeError)"

definition gamma_concrete :: real where
  "gamma_concrete = 1.5"

definition gamma_reinforcement :: real where
  "gamma_reinforcement = 1.15"

definition alfa_cc :: real where
  "alfa_cc = 0.85"

definition get_fyk :: "real \<Rightarrow> real" where
  "get_fyk steel_class = steel_class"

definition get_Es :: real where
  "get_Es = 2 * 10 ^ 5"

definition get_Ep :: real where
  "get_Ep = 1.95 * 10 ^ 5"

text \<open>
  The attributes of \<^verbatim>\<open>Material\<close> that the modelled components read, computed in the
  order of \<^verbatim>\<open>Material.__init__\<close>.  The steel class arrives as the number that the beam
  cuts out of the class string.  The other columns of table 3.1 (cube strength, fractiles of
  the tensile strength, modulus, the strain limits 1 and 2, the exponent) are looked up with
  the same index and are read by no modelled component.
\<close>

record material =
  m_fck :: real
  m_fcm :: real
  m_fctm :: real
  m_eps_cu3 :: real
  m_lambda_factor :: real
  m_netta :: real
  m_fcd :: real
  m_fyk :: real
  m_Es :: real
  m_eps_yk :: real
  m_fyd :: real
  m_eps_yd :: real
  m_Ep :: real
  m_prestress :: prestress_properties

definition Material :: "string \<Rightarrow> real \<Rightarrow> string option \<Rightarrow> real \<Rightarrow> error + material" where
  "Material concrete_class steel_class prestress_name prestress_diameter =
     and_then (get_index concrete_class) (\<lambda>index.
     and_then (get_fck index) (\<lambda>fck.
     and_then (get_fcm index) (\<lambda>fcm.
     and_then (get_fctm index) (\<lambda>fctm.
     and_then (get_eps_cu3 index) (\<lambda>eps_cu3.
     and_then (calculate_lambda fck) (\<lambda>lambda_factor.
     and_then (calculate_netta fck) (\<lambda>netta.
     and_then (py_div (fck * alfa_cc) gamma_concrete) (\<lambda>fcd.
     (let fyk = get_fyk steel_class; Es = get_Es in
     and_then (py_div fyk Es) (\<lambda>eps_yk.
     and_then (py_div fyk gamma_reinforcement) (\<lambda>fyd.
     and_then (py_div fyd Es) (\<lambda>eps_yd.
     and_then (material_prestress prestress_name prestress_diameter) (\<lambda>prestress.
       Inr \<lparr>m_fck = fck, m_fcm = fcm, m_fctm = fctm, m_eps_cu3 = eps_cu3,
            m_lambda_factor = lambda_factor, m_netta = netta, m_fcd = fcd,
            m_fyk = fyk, m_Es = Es, m_eps_yk = eps_yk, m_fyd = fyd, m_eps_yd = eps_yd,
            m_Ep = get_Ep, m_prestress = prestress\<rparr>)))))))))))))"

section \<open>C1\_ULS and C3\_ULS: the compression-zone factor\<close>

text \<open>
  \<^verbatim>\<open>ULS.calculate_alpha\<close>.  The two branches are named so that they can be compared:
  \<open>ULS_alpha_under\<close> is the assignment of the under-reinforced branch (Python floats, so a
  zero divisor raises), \<open>ULS_alpha_over\<close> the abc-formula of the over-reinforced branch
  (numpy floats from \<^verbatim>\<open>np.sqrt\<close> on).  The method tests \<^verbatim>\<open>As <= As_balanced\<close> and then
  \<^verbatim>\<open>As > As_balanced\<close>; if neither held, \<^verbatim>\<open>alpha\<close> would be unassigned at the return.
\<close>

definition ULS_alpha_under ::
  "real \<Rightarrow> real \<Rightarrow> real \<Rightarrow> real \<Rightarrow> real \<Rightarrow> real \<Rightarrow> real \<Rightarrow> error + real" where
  "ULS_alpha_under As fcd width d fyd lambda_factor netta =
     py_div (fyd * As) (lambda_factor * netta * fcd * width * d)"

definition abc_formula :: "real \<Rightarrow> real \<Rightarrow> real \<Rightarrow> error + real" where
  "abc_formula a b c =
     and_then (np_sqrt (b ^ 2 - 4 * a * c)) (\<lambda>root.
     and_then (np_div (- b + root) (2 * a)) (\<lambda>x1.
     and_then (np_div (- b - root) (2 * a)) (\<lambda>x2.
       Inr (max x1 x2))))"

definition ULS_alpha_over ::
  "real \<Rightarrow> real \<Rightarrow> real \<Rightarrow> real \<Rightarrow> real \<Rightarrow> real \<Rightarrow> real \<Rightarrow> real \<Rightarrow> error + real" where
  "ULS_alpha_over eps_cu3 As Es fcd width d lambda_factor netta =
     (let a = lambda_factor * netta * fcd * width * d;
          b = eps_cu3 * Es * As;
          c = - eps_cu3 * Es * As
      in abc_formula a b c)"

definition ULS_calculate_alpha ::
  "real \<Rightarrow> real \<Rightarrow> real \<Rightarrow> real \<Rightarrow> real \<Rightarrow> real \<Rightarrow> real \<Rightarrow> real \<Rightarrow> real \<Rightarrow> real
     \<Rightarrow> error + real" where
  "ULS_calculate_alpha eps_cu3 eps_yd As Es fcd width d fyd lambda_factor netta =
     and_then (py_div eps_cu3 (eps_cu3 + eps_yd)) (\<lambda>alpha_bal.
     and_then (py_div (lambda_factor * netta * alpha_bal * width * d * fcd) fyd) (\<lambda>As_balanced.
       if As \<le> As_balanced then ULS_alpha_under As fcd width d fyd lambda_factor netta
       else if As > As_balanced then ULS_alpha_over eps_cu3 As Es fcd width d lambda_factor netta
       else Inl UnboundLocalError))"

text \<open>The balanced area, as the method computes it before it branches.\<close>

definition ULS_As_balanced ::
  "real \<Rightarrow> real \<Rightarrow> real \<Rightarrow> real \<Rightarrow> real \<Rightarrow> real \<Rightarrow> real \<Rightarrow> real \<Rightarrow> error + real" where
  "ULS_As_balanced eps_cu3 eps_yd fcd width d fyd lambda_factor netta =
     and_then (py_div eps_cu3 (eps_cu3 + eps_yd)) (\<lambda>alpha_bal.
       py_div (lambda_factor * netta * alpha_bal * width * d * fcd) fyd)"

text \<open>The call in \<^verbatim>\<open>ULS.__init__\<close>, on the attributes of the material.\<close>

definition ULS_alpha :: "material \<Rightarrow> real \<Rightarrow> real \<Rightarrow> real \<Rightarrow> error + real" where
  "ULS_alpha m As width d_1 =
     ULS_calculate_alpha (m_eps_cu3 m) (m_eps_yd m) As (m_Es m) (m_fcd m) width d_1
       (m_fyd m) (m_lambda_factor m) (m_netta m)"

text \<open>
  \<^verbatim>\<open>ULS_prestress_and_ordinary.calculate_alpha\<close>, which returns the absolute value.
\<close>

definition ULS_prestress_and_ordinary_calculate_alpha ::
  "real \<Rightarrow> real \<Rightarrow> real \<Rightarrow> real \<Rightarrow> real \<Rightarrow> real \<Rightarrow> real \<Rightarrow> real \<Rightarrow> real \<Rightarrow> real \<Rightarrow> real \<Rightarrow> real
     \<Rightarrow> error + real" where
  "ULS_prestress_and_ordinary_calculate_alpha eps_cu3 Ap Ep fcd eps_diff width d fpd
       lambda_factor netta fyd As =
     and_then (py_div fpd Ep) (\<lambda>eps_pd.
     and_then (py_div eps_cu3 (eps_cu3 + eps_pd - eps_diff)) (\<lambda>alpha_b.
     and_then (py_div (netta * lambda_factor * alpha_b * width * d * fcd + fyd * As) fpd) (\<lambda>Apb.
     and_then
       (if Ap \<le> Apb then
          py_div (fpd * Ap - fyd * As) (netta * lambda_factor * fcd * width * d)
        else if Ap > Apb then
          (let a = netta * lambda_factor * fcd * width * d;
               b = fyd * As + (eps_cu3 - eps_diff) * Ep * Ap;
               c = - eps_cu3 * Ep * Ap
           in abc_formula a b c)
        else Inl UnboundLocalError)
       (\<lambda>alpha. Inr \<bar>alpha\<bar>))))"

text \<open>
  The quadratic that the over-reinforced branch solves, with the coefficients \<^verbatim>\<open>a\<close>,
  \<^verbatim>\<open>b\<close>, \<^verbatim>\<open>c\<close> of the source.
\<close>

definition ULS_quadratic ::
  "real \<Rightarrow> real \<Rightarrow> real \<Rightarrow> real \<Rightarrow> real \<Rightarrow> real \<Rightarrow> real \<Rightarrow> real \<Rightarrow> real \<Rightarrow> real" where
  "ULS_quadratic eps_cu3 As Es fcd width d lambda_factor netta x =
     (let a = lambda_factor * netta * fcd * width * d;
          b = eps_cu3 * Es * As;
          c = - eps_cu3 * Es * As
      in a * x\<^sup>2 + b * x + c)"

text \<open>A computation that returns a positive number.\<close>

definition positive_result :: "error + real \<Rightarrow> bool" where
  "positive_result r = (case r of Inl e \<Rightarrow> False | Inr v \<Rightarrow> 0 < v)"

text \<open>The material of the default input: C30 concrete, B500 steel, no prestressing.\<close>

definition C30_B500 :: material where
  "C30_B500 = \<lparr>m_fck = 30, m_fcm = 38, m_fctm = 29 / 10, m_eps_cu3 = 7 / 2000,
        m_lambda_factor = 4 / 5, m_netta = 1, m_fcd = 17, m_fyk = 500,
        m_Es = 200000, m_eps_yk = 1 / 400, m_fyd = 10000 / 23,
        m_eps_yd = 1 / 460, m_Ep = 195000,
        m_prestress =
          \<lparr>strand_index = None, strand_fpk = 0, strand_Ap = 0,
             strand_Fpk = 0, strand_Fp01k = 0, strand_fp01k = 0,
             strand_fpd = 0\<rparr>\<rparr>"

section \<open>B0\_Creep\_number: creep numbers of annex B\<close>

definition calculate_h0 :: "real \<Rightarrow> real \<Rightarrow> real \<Rightarrow> error + real" where
  "calculate_h0 Ac width height = py_div (2 * Ac) (2 * (width + height))"

definition calculate_beta_fcm :: "real \<Rightarrow> error + real" where
  "calculate_beta_fcm fcm = and_then (py_pow fcm 0.5) (\<lambda>root. py_div 16.8 root)"

definition calculate_phi_RH :: "real \<Rightarrow> real \<Rightarrow> real \<Rightarrow> error + real" where
  "calculate_phi_RH h0 fcm RH =
     and_then (py_div 35 fcm) (\<lambda>q1.
     and_then (py_pow q1 0.7) (\<lambda>alpha_1.
     and_then (py_div 35 fcm) (\<lambda>q2.
     and_then (py_pow q2 0.2) (\<lambda>alpha_2.
     and_then (py_pow h0 (1 / 3)) (\<lambda>h.
     and_then (py_div (1 - RH / 100) (0.1 * h)) (\<lambda>q.
       if fcm \<le> 35 then Inr (1 + q) else Inr ((1 + q * alpha_1) * alpha_2)))))))"

text \<open>
  The exponent \<^verbatim>\<open>alpha_cement\<close> is one of the integers -1, 0 and 1; a float to the power
  -1 is its reciprocal and raises on zero.
\<close>

definition calculate_t0_adjusted :: "real \<Rightarrow> string \<Rightarrow> error + real" where
  "calculate_t0_adjusted t0 cement_class =
     and_then
       (if cement_class = ''S'' then Inr (- 1)
        else if cement_class = ''N'' then Inr 0
        else if cement_class = ''R'' then Inr 1
        else Inl ValueError)
       (\<lambda>alpha_cement :: int.
     and_then (py_pow t0 1.2) (\<lambda>p.
     and_then (py_div 9 (2 + p)) (\<lambda>q.
     and_then
       (if alpha_cement = - 1 then py_div 1 (q + 1)
        else if alpha_cement = 0 then Inr 1
        else Inr (q + 1))
       (\<lambda>factor. Inr (max (t0 * factor) 0.5)))))"

definition calculate_beta_t0 :: "real \<Rightarrow> error + real" where
  "calculate_beta_t0 t0_adjusted =
     and_then (py_pow t0_adjusted 0.20) (\<lambda>p. py_div 1 (0.1 + p))"

definition calculate_phi_0 :: "real \<Rightarrow> real \<Rightarrow> real \<Rightarrow> real" where
  "calculate_phi_0 phi_RH beta_fcm beta_t0 = phi_RH * beta_fcm * beta_t0"

text \<open>
  \<^verbatim>\<open>calculate_beta_c\<close>: first the ceiling value \<^verbatim>\<open>beta_H\<close>, then the development
  factor for the age \<open>t0\<close> that the caller passes.
\<close>

definition calculate_beta_H :: "real \<Rightarrow> real \<Rightarrow> real \<Rightarrow> error + real" where
  "calculate_beta_H RH h0 fcm =
     and_then (py_div 35 fcm) (\<lambda>q.
     and_then (py_pow q 0.5) (\<lambda>alpha_3.
       if fcm \<le> 35 then Inr (min (1.5 * (1 + (0.012 * RH) ^ 18) * h0 + 250) 1500)
       else Inr (min (1.5 * (1 + (0.012 * RH) ^ 18) * h0 + 250 * alpha_3) (1500 * alpha_3))))"

definition calculate_beta_c :: "real \<Rightarrow> real \<Rightarrow> real \<Rightarrow> real \<Rightarrow> real \<Rightarrow> error + real" where
  "calculate_beta_c t0 t RH h0 fcm =
     and_then (calculate_beta_H RH h0 fcm) (\<lambda>beta_H.
     and_then (py_div (t - t0) (beta_H + t - t0)) (\<lambda>q.
       py_pow q 0.3))"

definition calcualte_phi :: "real \<Rightarrow> real \<Rightarrow> real" where
  "calcualte_phi phi_0 beta_c = phi_0 * beta_c"

text \<open>
  \<^verbatim>\<open>Creep_number.__init__\<close>, on the attributes it reads from the cross-section and the
  material.  The attribute \<^verbatim>\<open>beta_c\<close> is computed once, from \<^verbatim>\<open>t0_self\<close>, and both creep
  numbers are built with it.
\<close>

record creep =
  cr_h0 :: real
  cr_beta_fcm :: real
  cr_phi_RH :: real
  cr_t0_adjusted_self :: real
  cr_t0_adjusted_live :: real
  cr_beta_t0_self :: real
  cr_beta_t0_live :: real
  cr_phi_0_self :: real
  cr_phi_0_live :: real
  cr_beta_c :: real
  cr_phi_selfload :: real
  cr_phi_liveload :: real

definition Creep_number ::
  "real \<Rightarrow> real \<Rightarrow> real \<Rightarrow> real \<Rightarrow> real \<Rightarrow> real \<Rightarrow> real \<Rightarrow> string \<Rightarrow> real \<Rightarrow> error + creep" where
  "Creep_number Ac width height fcm t0_self t0_live RH cement_class t =
     and_then (calculate_h0 Ac width height) (\<lambda>h0.
     and_then (calculate_beta_fcm fcm) (\<lambda>beta_fcm.
     and_then (calculate_phi_RH h0 fcm RH) (\<lambda>phi_RH.
     and_then (calculate_t0_adjusted t0_self cement_class) (\<lambda>t0_adjusted_self.
     and_then (calculate_t0_adjusted t0_live cement_class) (\<lambda>t0_adjusted_live.
     and_then (calculate_beta_t0 t0_adjusted_self) (\<lambda>beta_t0_self.
     and_then (calculate_beta_t0 t0_adjusted_live) (\<lambda>beta_t0_live.
     (let phi_0_self = calculate_phi_0 phi_RH beta_fcm beta_t0_self;
          phi_0_live = calculate_phi_0 phi_RH beta_fcm beta_t0_live
      in
     and_then (calculate_beta_c t0_self t RH h0 fcm) (\<lambda>beta_c.
       Inr \<lparr>cr_h0 = h0, cr_beta_fcm = beta_fcm, cr_phi_RH = phi_RH,
            cr_t0_adjusted_self = t0_adjusted_self, cr_t0_adjusted_live = t0_adjusted_live,
            cr_beta_t0_self = beta_t0_self, cr_beta_t0_live = beta_t0_live,
            cr_phi_0_self = phi_0_self, cr_phi_0_live = phi_0_live,
            cr_beta_c = beta_c,
            cr_phi_selfload = calcualte_phi phi_0_self beta_c,
            cr_phi_liveload = calcualte_phi phi_0_live beta_c\<rparr>)))))))))"

section \<open>G2\_SLS\_Cracked: the compression-zone factor of the cracked section\<close>











text \<open>
  The number that a computation returns, with 0 standing in where it returns none; it serves
  to state continuity of a result in one of the arguments.
\<close>

definition returned_number :: "error + real \<Rightarrow> real" where
  "returned_number r = (case r of Inl e \<Rightarrow> 0 | Inr v \<Rightarrow> v)"

section \<open>Theorems\<close>

subsection \<open>Deflection control\<close>

text \<open>
  C9.  The deflection control fails when the total deflection is exactly span/250 (the span
  in metres, the deflection in millimetres), and it passes exactly when the limit span/250
  is strictly greater than the total deflection.
\<close>

theorem control_deflection_strict:
  "control_deflection L (L * 1000 / 250) = False
   \<and> control_deflection L t = (t < L * 1000 / 250)"
  by (simp add: control_deflection_def)

subsection \<open>Helper facts\<close>

lemma and_then_simps: "and_then (Inl e) f = Inl e" "and_then (Inr v) f = f v"
  by (simp_all add: and_then_def)

subsection \<open>Prestressing strand that is not in the table\<close>



subsection \<open>Nominal cover\<close>

text \<open>
  C7, as the code has it.  For every admissible exposure class and every bar diameter the
  nominal cover is max(bonding minimum, exposure-class minimum, 10 mm) + 10 mm, the bonding
  minimum being max(bar diameter, 10 mm).  The exposure-class minimum is 15 mm for XC1,
  25 mm for XC2 to XC4, 40 mm for XD1, XS1, XD2, XD3 and XS2, and 50 mm for XS3, whatever
  the bar diameter; for X0 it is the bonding minimum, so there it follows the bar diameter.
\<close>

theorem cnom_of_exposure_class:
  assumes "exposure_class \<in> set exposure_classes"
  shows "cross_section_cover exposure_class bar_diameter =
     (let bonding = max bar_diameter 10;
          exposure =
            (if exposure_class = ''X0'' then bonding
             else if exposure_class = ''XC1'' then 15
             else if exposure_class \<in> {''XC2'', ''XC3'', ''XC4''} then 25
             else if exposure_class = ''XS3'' then 50
             else 40)
      in Inr \<lparr>cover_c_min_b = bonding, cover_c_min_dur = exposure,
              cover_cnom = max (max bonding exposure) 10 + 10\<rparr>)"
  using assms
  by (auto simp add: exposure_classes_def cross_section_cover_def get_c_min_b_def
      get_c_min_dur_def calculate_cnom_def and_then_simps Let_def)

theorem cnom_of_exposure_class_witness:
  "''XD2'' \<in> set exposure_classes
   \<and> cross_section_cover ''XD2'' 20 = Inr \<lparr>cover_c_min_b = 20, cover_c_min_dur = 40, cover_cnom = 50\<rparr>"
proof -
  have a: "''XD2'' \<in> set exposure_classes" by (simp add: exposure_classes_def)
  show ?thesis using a cnom_of_exposure_class [OF a, of 20] by (simp add: Let_def)
qed

text \<open>
  The claim as the specification words it (the exposure-class minimum is fixed by the class
  and does not depend on the bar diameter) fails for X0: bars of 12 mm and of 20 mm give
  exposure-class minima of 12 mm and 20 mm.
\<close>

theorem c_min_dur_X0_counterexample:
  "cross_section_cover ''X0'' 12 = Inr \<lparr>cover_c_min_b = 12, cover_c_min_dur = 12, cover_cnom = 22\<rparr>
   \<and> cross_section_cover ''X0'' 20 = Inr \<lparr>cover_c_min_b = 20, cover_c_min_dur = 20, cover_cnom = 30\<rparr>
   \<and> get_c_min_dur ''X0'' (get_c_min_b 12) \<noteq> get_c_min_dur ''X0'' (get_c_min_b 20)"
  by (simp add: cross_section_cover_def get_c_min_b_def get_c_min_dur_def calculate_cnom_def
      and_then_simps Let_def)

subsection \<open>Crack control: the table of maximum bar diameters\<close>

lemmas table_defs = bar_diameter_matrix_def stress_vector_def crack_width_vector_def

text \<open>
  Where the lookup is sound: a stress above 450 gives \<^verbatim>\<open>None\<close>, a stress below 160 is
  looked up at 160, and for a crack-width limit in (0.2, 0.4] and a stress in [160, 450) some
  bracket of the table assigns a diameter.  In an analysis the crack-width limit is always
  in (0.3, 0.4].
\<close>

lemma max_bar_diameter_above_table:
  "sigma > 450 \<Longrightarrow> calculate_maximal_bar_diameter w sigma = Inr None"
  by (simp add: calculate_maximal_bar_diameter_def)

lemma max_bar_diameter_below_table:
  "sigma < 160 \<Longrightarrow>
   calculate_maximal_bar_diameter w sigma = calculate_maximal_bar_diameter w 160"
  by (simp add: calculate_maximal_bar_diameter_def)

lemma max_bar_diameter_in_table:
  assumes "0.2 < w" "w \<le> 0.4" "160 \<le> sigma" "sigma < 450"
  shows "\<exists>d. calculate_maximal_bar_diameter w sigma = Inr (Some d)"
proof -
  have "\<exists>d. fold (row_step w sigma) [0 ..< length crack_width_vector - 1] None = Some d"
    using assms
    by (simp add: row_step_def column_step_def table_defs Let_def)
  then show ?thesis using assms by (auto simp add: calculate_maximal_bar_diameter_def)
qed

lemma crack_width_limit_range:
  assumes "exposure_class \<in> set exposure_classes"
  shows "\<exists>w. crack_width_limit exposure_class bar_diameter = Inr w \<and> 0.3 < w \<and> w \<le> 0.4"
proof (cases "exposure_class = ''X0''")
  case True
  have "max bar_diameter 10 \<noteq> 0" by simp
  then have "crack_width_limit exposure_class bar_diameter = Inr 0.4"
    using True
    by (simp add: crack_width_limit_def cross_section_cover_def get_c_min_dur_def
        get_c_min_b_def calculate_cnom_def calculate_kc_def py_div_def get_limit_value_def
        and_then_simps Let_def)
  moreover have "(0.3::real) < 0.4" "(0.4::real) \<le> 0.4" by simp_all
  ultimately show ?thesis by blast
next
  case False
  obtain dur where dur: "get_c_min_dur exposure_class (get_c_min_b bar_diameter) = Inr dur"
    and pos: "0 < dur"
    using assms False
    by (auto simp add: exposure_classes_def get_c_min_dur_def)
  define c where "c = calculate_cnom (get_c_min_b bar_diameter) dur"
  have "dur + 10 \<le> c" by (simp add: c_def calculate_cnom_def Let_def)
  then have q: "1 < c / dur" using pos by simp
  have cls: "exposure_class \<in> set [''XC1'', ''XC2'', ''XC3'', ''XC4'', ''XD1'', ''XD2'', ''XD3'',
      ''XS1'', ''XS2'', ''XS3'']"
    using assms False by (auto simp add: exposure_classes_def)
  have "crack_width_limit exposure_class bar_diameter = Inr (0.3 * min (c / dur) 1.3)"
    using False pos cls
    by (simp add: crack_width_limit_def cross_section_cover_def dur c_def calculate_kc_def
        py_div_def get_limit_value_def and_then_simps Let_def)
  moreover have "0.3 < 0.3 * min (c / dur) 1.3" "0.3 * min (c / dur) 1.3 \<le> 0.4"
    using q by (simp_all add: min_def)
  ultimately show ?thesis by blast
qed

lemma crack_control_above_table:
  assumes "exposure_class \<in> set exposure_classes" "450 < sigma_s"
  shows "crack_control exposure_class bar_diameter sigma_s =
     Inr \<lparr>crack_max_bar_diameter = None,
          crack_control_bar_diameter =
            Message ''the stress is bigger that the maximum, and the crack control could not be executed'',
          crack_safety = None\<rparr>"
proof -
  obtain w where "crack_width_limit exposure_class bar_diameter = Inr w"
    using crack_width_limit_range [OF assms(1)] by blast
  then show ?thesis using assms(2)
    by (simp add: crack_control_def crack_check_def and_then_simps max_bar_diameter_above_table
        control_of_bar_diameter_def calculate_safety_degree_def)
qed

lemma crack_control_in_table:
  assumes "exposure_class \<in> set exposure_classes" "sigma_s < 450" "bar_diameter \<noteq> 0"
  shows "\<exists>d s. crack_control exposure_class bar_diameter sigma_s =
     Inr \<lparr>crack_max_bar_diameter = Some d,
          crack_control_bar_diameter = Boolean (bar_diameter < d),
          crack_safety = Some s\<rparr>"
proof -
  obtain w where w: "crack_width_limit exposure_class bar_diameter = Inr w" "0.3 < w" "w \<le> 0.4"
    using crack_width_limit_range [OF assms(1)] by blast
  have "\<exists>d. calculate_maximal_bar_diameter w sigma_s = Inr (Some d)"
  proof (cases "sigma_s < 160")
    case True
    then show ?thesis
      using max_bar_diameter_in_table [of w 160] w
      by (simp add: max_bar_diameter_below_table)
  next
    case False
    then show ?thesis using max_bar_diameter_in_table [of w sigma_s] w assms(2) by simp
  qed
  then obtain d where "calculate_maximal_bar_diameter w sigma_s = Inr (Some d)" by blast
  then show ?thesis using w(1) assms(3)
    by (simp add: crack_control_def crack_check_def and_then_simps
        control_of_bar_diameter_def calculate_safety_degree_def py_div_def)
qed

text \<open>
  C1.  A crack-width check whose reinforcement stress lies in the table domain returns a
  numeric diameter, and a stress above 450 gives an outcome of its own that ends nothing
  else.  The code does so below 450 and above it (the lemmas before this one), but not at
  the upper end of the domain: for the default exposure class XC1 with 20 mm bars and a
  stress of exactly 450 N/mm2 no column bracket \<^verbatim>\<open>a[i] <= sigma < a[i+1]\<close> holds, the
  variable \<^verbatim>\<open>max_bar_diameter\<close> is never assigned, and the check ends in an
  \<^verbatim>\<open>UnboundLocalError\<close> that leaves the constructor.
\<close>

theorem crack_control_stress_450:
  "crack_control ''XC1'' 20 450 = Inl UnboundLocalError"
  by (simp add: crack_control_def crack_width_limit_def cross_section_cover_def get_c_min_dur_def
        get_c_min_b_def calculate_cnom_def calculate_kc_def py_div_def get_limit_value_def
        crack_check_def and_then_def calculate_maximal_bar_diameter_def row_step_def
        column_step_def table_defs Let_def)

text \<open>
  C5.  The double interpolation at the 24 vertices of the table, row by row (crack-width
  limits 0.4, 0.3, 0.2; stresses 160 to 450).  The 14 vertices in the rows 0.4 and 0.3 and
  the columns 160 to 400 return the table entry, among them 16 for (0.3, 240).  The column
  450 and the whole row 0.2 return nothing: no bracket contains them, and the method ends
  in an \<^verbatim>\<open>UnboundLocalError\<close>.
\<close>

theorem table_vertices_lookup:
  "map (\<lambda>w. map (calculate_maximal_bar_diameter w) stress_vector) crack_width_vector =
     [[Inr (Some 40), Inr (Some 32), Inr (Some 20), Inr (Some 16),
       Inr (Some 12), Inr (Some 10), Inr (Some 8), Inl UnboundLocalError],
      [Inr (Some 32), Inr (Some 25), Inr (Some 16), Inr (Some 12),
       Inr (Some 10), Inr (Some 8), Inr (Some 6), Inl UnboundLocalError],
      [Inl UnboundLocalError, Inl UnboundLocalError, Inl UnboundLocalError,
       Inl UnboundLocalError, Inl UnboundLocalError, Inl UnboundLocalError,
       Inl UnboundLocalError, Inl UnboundLocalError]]"
  by (simp add: calculate_maximal_bar_diameter_def row_step_def column_step_def table_defs
      Let_def)

subsection \<open>Stress control\<close>

text \<open>
  What the control computes.  A compressive (negative) stress is compared with the positive
  bound 0.6 fck itself, not with its negative, so with a non-negative fck every compressive
  stress fails; and the uncracked branch decides on the first fibre of the list alone.
\<close>

lemma control_stress_cracked_compression:
  "0 \<le> fck \<Longrightarrow> sigma_c_cracked < 0 \<Longrightarrow>
   control_stress fck fctm True sigma_c_cracked sigma_c_uncracked = Some False"
  by (simp add: control_stress_def Let_def)

lemma control_stress_cracked_tension:
  "0 \<le> sigma_c_cracked \<Longrightarrow>
   control_stress fck fctm True sigma_c_cracked sigma_c_uncracked
     = Some (sigma_c_cracked < fctm)"
  by (simp add: control_stress_def Let_def)

lemma control_stress_uncracked_first_fibre:
  "control_stress fck fctm False sigma_c_cracked (s # later_fibres)
     = control_stress fck fctm False sigma_c_cracked [s]"
  by (simp add: control_stress_def Let_def)

text \<open>
  C3.  The stress control should pass exactly when the governing stresses are within the
  limits: compression within 0.6 fck in magnitude, tension below fctm, on the cracked
  section when it is cracked and on all three uncracked fibres otherwise.  For C30
  (fck = 30, fctm = 2.9) the code fails a cracked section under a compression of
  10 N/mm2, which is within 0.6 fck = 18, and it passes an uncracked section whose first
  fibre is at 1 N/mm2 although the second is at a tension of 5 N/mm2, above fctm.
\<close>

theorem control_stress_failing_inputs:
  "control_stress 30 2.9 True (- 10) [- 4, - 6, - 5] = Some False
   \<and> control_stress 30 2.9 False (- 10) [1, 5, 1] = Some True"
  by (simp add: control_stress_def Let_def)

subsection \<open>The material record\<close>

text \<open>
  Every recognised concrete class gives positive table values, and the steel attributes
  are tied by the constructor: the design yield strain is the design strength over the
  modulus.
\<close>

lemma get_index_cases:
  assumes "get_index concrete_class = Inr i"
  shows "i \<in> {0, 1, 2, 3, 4, 5, 6, 7, 8, 9, 10, 11, 12, 13}"
  using assms by (auto simp add: get_index_def split: if_splits)


lemma positive_resultE:
  assumes "positive_result r"
  obtains v where "r = Inr v" "0 < v"
  using assms by (cases r) (simp_all add: positive_result_def)

lemma concrete_table_values:
  assumes "i \<in> {0, 1, 2, 3, 4, 5, 6, 7, 8, 9, 10, 11, 12, (13::nat)}"
  shows "positive_result (get_fck i)" "positive_result (get_fcm i)"
    "positive_result (get_fctm i)" "positive_result (get_eps_cu3 i)"
    "positive_result (and_then (get_fck i) calculate_lambda)"
    "positive_result (and_then (get_fck i) calculate_netta)"
  using assms
  by (auto simp add: positive_result_def get_fck_def get_fcm_def get_fctm_def get_eps_cu3_def
      calculate_lambda_def calculate_netta_def py_index_def and_then_simps)

lemma concrete_values:
  assumes "i \<in> {0, 1, 2, 3, 4, 5, 6, 7, 8, 9, 10, 11, 12, (13::nat)}"
  obtains fck fcm fctm e l n where "get_fck i = Inr fck" "get_fcm i = Inr fcm"
    "get_fctm i = Inr fctm" "get_eps_cu3 i = Inr e" "calculate_lambda fck = Inr l"
    "calculate_netta fck = Inr n" "0 < fck" "0 < fcm" "0 < fctm" "0 < e" "0 < l" "0 < n"
proof -
  note t = concrete_table_values [OF assms]
  from t(1) obtain fck where 1: "get_fck i = Inr fck" "0 < fck" by (rule positive_resultE)
  from t(2) obtain fcm where 2: "get_fcm i = Inr fcm" "0 < fcm" by (rule positive_resultE)
  from t(3) obtain fctm where 3: "get_fctm i = Inr fctm" "0 < fctm" by (rule positive_resultE)
  from t(4) obtain e where 4: "get_eps_cu3 i = Inr e" "0 < e" by (rule positive_resultE)
  from t(5) obtain l where 5: "calculate_lambda fck = Inr l" "0 < l"
    unfolding 1 and_then_simps by (rule positive_resultE)
  from t(6) obtain n where 6: "calculate_netta fck = Inr n" "0 < n"
    unfolding 1 and_then_simps by (rule positive_resultE)
  show ?thesis using that 1 2 3 4 5 6 by blast
qed

lemma material_prestress_total:
  "\<exists>p. material_prestress prestress_name prestress_diameter = Inr p"
  by (simp add: material_prestress_def get_index_prestress_def get_fpk_def get_Ap_def get_Fpk_def
      get_Fp01k_def calculate_fp01k_def calculate_fpd_def py_index_def py_div_def
      gamma_prestressed_reinforcement_def and_then_simps Let_def)

lemma Material_facts:
  assumes "Material concrete_class steel_class prestress_name prestress_diameter = Inr m"
  shows "0 < m_eps_cu3 m" "0 < m_fcd m" "0 < m_lambda_factor m" "0 < m_netta m"
    "m_fyd m = steel_class / 1.15" "m_Es m = 200000" "m_eps_yd m = m_fyd m / m_Es m"
    "0 < m_fck m" "0 < m_fcm m"
proof -
  obtain i where i: "get_index concrete_class = Inr i"
    using assms by (cases "get_index concrete_class") (simp_all add: Material_def and_then_simps)
  obtain fck fcm fctm e l n where v: "get_fck i = Inr fck" "get_fcm i = Inr fcm"
    "get_fctm i = Inr fctm" "get_eps_cu3 i = Inr e" "calculate_lambda fck = Inr l"
    "calculate_netta fck = Inr n" "0 < fck" "0 < fcm" "0 < fctm" "0 < e" "0 < l" "0 < n"
    using concrete_values [OF get_index_cases [OF i]] by blast
  obtain p where p: "material_prestress prestress_name prestress_diameter = Inr p"
    using material_prestress_total by blast
  have m: "m = \<lparr>m_fck = fck, m_fcm = fcm, m_fctm = fctm, m_eps_cu3 = e,
            m_lambda_factor = l, m_netta = n, m_fcd = fck * 0.85 / 1.5,
            m_fyk = steel_class, m_Es = 200000, m_eps_yk = steel_class / 200000,
            m_fyd = steel_class / 1.15, m_eps_yd = steel_class / 1.15 / 200000,
            m_Ep = 195000, m_prestress = p\<rparr>"
    using assms
    by (simp add: Material_def i v p and_then_simps py_div_def alfa_cc_def gamma_concrete_def
        gamma_reinforcement_def get_fyk_def get_Es_def get_Ep_def Let_def)
  show "0 < m_eps_cu3 m" "0 < m_fcd m" "0 < m_lambda_factor m" "0 < m_netta m"
    "m_fyd m = steel_class / 1.15" "m_Es m = 200000" "m_eps_yd m = m_fyd m / m_Es m"
    "0 < m_fck m" "0 < m_fcm m"
    using v by (simp_all add: m)
qed

lemma Material_C30_B500: "Material ''C30'' 500 None 0 = Inr C30_B500"
  by (simp add: Material_def get_index_def get_fck_def get_fcm_def get_fctm_def get_eps_cu3_def
      calculate_lambda_def calculate_netta_def py_index_def py_div_def alfa_cc_def
      gamma_concrete_def gamma_reinforcement_def get_fyk_def get_Es_def get_Ep_def
      material_prestress_def get_index_prestress_def get_fpk_def get_Ap_def get_Fpk_def
      get_Fp01k_def calculate_fp01k_def calculate_fpd_def and_then_simps Let_def C30_B500_def)

subsection \<open>The abc-formula\<close>

text \<open>
  For a positive leading coefficient and a non-negative discriminant the abc-formula returns
  the root with the plus sign, which is a root of the quadratic and the largest one.
\<close>

lemma abc_formula_value:
  assumes "0 < a" "0 \<le> b\<^sup>2 - 4 * a * c"
  shows "abc_formula a b c = Inr ((- b + sqrt (b\<^sup>2 - 4 * a * c)) / (2 * a))"
proof -
  have "0 \<le> sqrt (b\<^sup>2 - 4 * a * c)" using assms(2) by simp
  then have "(- b - sqrt (b\<^sup>2 - 4 * a * c)) / (2 * a) \<le> (- b + sqrt (b\<^sup>2 - 4 * a * c)) / (2 * a)"
    using assms(1) by (simp add: divide_right_mono)
  then show ?thesis using assms
    by (simp add: abc_formula_def np_sqrt_def np_div_def and_then_simps max_def)
qed

lemma larger_root_is_root:
  fixes a b c :: real
  assumes "0 < a" "0 \<le> b\<^sup>2 - 4 * a * c"
  defines "r \<equiv> (- b + sqrt (b\<^sup>2 - 4 * a * c)) / (2 * a)"
  shows "a * r\<^sup>2 + b * r + c = 0"
proof -
  define s where "s = sqrt (b\<^sup>2 - 4 * a * c)"
  have s2: "s * s = b * b - 4 * a * c"
    using assms(2) by (simp add: s_def power2_eq_square [symmetric])
  have r: "r = (- b + s) / (2 * a)" by (simp add: r_def s_def)
  have "4 * a * (a * r\<^sup>2 + b * r + c) = (- b + s) * (- b + s) + 2 * b * (- b + s) + 4 * a * c"
    using assms(1) by (simp add: r power2_eq_square field_simps)
  also have "\<dots> = s * s - b * b + 4 * a * c" by (simp add: algebra_simps)
  also have "\<dots> = 0" by (simp add: s2)
  finally show ?thesis using assms(1) by simp
qed

lemma larger_root_is_largest:
  fixes a b c x :: real
  assumes "0 < a" "a * x\<^sup>2 + b * x + c = 0"
  shows "x \<le> (- b + sqrt (b\<^sup>2 - 4 * a * c)) / (2 * a)"
proof -
  have "(2 * a * x + b)\<^sup>2 = b\<^sup>2 - 4 * a * c + 4 * a * (a * x\<^sup>2 + b * x + c)"
    by (simp add: power2_eq_square algebra_simps)
  then have "(2 * a * x + b)\<^sup>2 = b\<^sup>2 - 4 * a * c" using assms(2) by simp
  then have "\<bar>2 * a * x + b\<bar> = sqrt (b\<^sup>2 - 4 * a * c)"
    by (metis real_sqrt_abs)
  then have "2 * a * x + b \<le> sqrt (b\<^sup>2 - 4 * a * c)" by linarith
  then have "x * (2 * a) \<le> - b + sqrt (b\<^sup>2 - 4 * a * c)" by (simp add: algebra_simps)
  then show ?thesis using assms(1) by (simp add: pos_le_divide_eq)
qed

lemma larger_root_in_unit_interval:
  fixes a b c :: real
  assumes "0 < a" "c < 0" "0 < a + b + c"
  defines "r \<equiv> (- b + sqrt (b\<^sup>2 - 4 * a * c)) / (2 * a)"
  shows "0 < r" "r < 1"
proof -
  have ac: "0 < - (4 * a * c)" using assms(1,2) by (simp add: mult_pos_neg)
  have "sqrt (b\<^sup>2) < sqrt (b\<^sup>2 - 4 * a * c)"
    using ac by (simp add: real_sqrt_less_iff del: real_sqrt_abs)
  then have "\<bar>b\<bar> < sqrt (b\<^sup>2 - 4 * a * c)" by simp
  then have "0 < - b + sqrt (b\<^sup>2 - 4 * a * c)" by linarith
  then show "0 < r" using assms(1) by (simp add: r_def)
  have pos: "0 < 2 * a + b" using assms by linarith
  have "b\<^sup>2 - 4 * a * c < (2 * a + b)\<^sup>2"
  proof -
    have "(2 * a + b)\<^sup>2 - (b\<^sup>2 - 4 * a * c) = 4 * a * (a + b + c)"
      by (simp add: power2_eq_square algebra_simps)
    moreover have "0 < 4 * a * (a + b + c)" using assms(1,3) by simp
    ultimately show ?thesis by linarith
  qed
  then have "sqrt (b\<^sup>2 - 4 * a * c) < sqrt ((2 * a + b)\<^sup>2)"
    by (simp add: real_sqrt_less_iff del: real_sqrt_abs)
  then have "sqrt (b\<^sup>2 - 4 * a * c) < 2 * a + b" using pos by simp
  then have "- b + sqrt (b\<^sup>2 - 4 * a * c) < 1 * (2 * a)" by linarith
  then show "r < 1" using assms(1) unfolding r_def by (simp add: pos_divide_less_eq)
qed


lemma positive_roots_equal:
  fixes a b c x y :: real
  assumes "0 < a" "0 \<le> b" "0 < x" "0 < y"
    "a * x\<^sup>2 + b * x + c = 0" "a * y\<^sup>2 + b * y + c = 0"
  shows "x = y"
proof -
  have "(x - y) * (a * (x + y) + b) = (a * x\<^sup>2 + b * x + c) - (a * y\<^sup>2 + b * y + c)"
    by (simp add: power2_eq_square algebra_simps)
  then have "(x - y) * (a * (x + y) + b) = 0" using assms(5,6) by simp
  moreover have "0 < a * (x + y) + b"
    using assms(1-4) by (simp add: add_pos_nonneg)
  ultimately show ?thesis by simp
qed

subsection \<open>Ordinary reinforcement: the two branches of the compression-zone factor\<close>

lemma ULS_calculate_alpha_balance:
  assumes pos: "0 < eps_cu3" "0 < Es" "0 < fcd" "0 < width" "0 < d" "0 < fyd"
      "0 < lambda_factor" "0 < netta"
    and yield: "eps_yd = fyd / Es"
    and bal: "ULS_As_balanced eps_cu3 eps_yd fcd width d fyd lambda_factor netta = Inr As_balanced"
  shows "(As \<le> As_balanced \<longrightarrow>
            ULS_calculate_alpha eps_cu3 eps_yd As Es fcd width d fyd lambda_factor netta
              = ULS_alpha_under As fcd width d fyd lambda_factor netta)
       \<and> (As_balanced < As \<longrightarrow>
            ULS_calculate_alpha eps_cu3 eps_yd As Es fcd width d fyd lambda_factor netta
              = ULS_alpha_over eps_cu3 As Es fcd width d lambda_factor netta
            \<and> (\<exists>r. ULS_alpha_over eps_cu3 As Es fcd width d lambda_factor netta = Inr r
                 \<and> ULS_quadratic eps_cu3 As Es fcd width d lambda_factor netta r = 0
                 \<and> (\<forall>x. ULS_quadratic eps_cu3 As Es fcd width d lambda_factor netta x = 0
                        \<longrightarrow> x \<le> r)))
       \<and> ULS_alpha_over eps_cu3 As_balanced Es fcd width d lambda_factor netta
           = ULS_alpha_under As_balanced fcd width d fyd lambda_factor netta
       \<and> ULS_alpha_under As_balanced fcd width d fyd lambda_factor netta
           = Inr (eps_cu3 / (eps_cu3 + eps_yd))"
proof -
  define K where "K = lambda_factor * netta * fcd * width * d"
  define S where "S = eps_cu3 + eps_yd"
  define alpha_bal where "alpha_bal = eps_cu3 / S"
  have K: "0 < K" using pos by (simp add: K_def)
  have eps_yd: "0 < eps_yd" using pos yield by simp
  have S: "0 < S" using pos eps_yd by (simp add: S_def)
  have ab: "0 < alpha_bal" using pos S by (simp add: alpha_bal_def)
  have Asb: "As_balanced = K * alpha_bal / fyd"
    using bal pos S
    by (auto simp add: ULS_As_balanced_def py_div_def and_then_simps K_def S_def alpha_bal_def
        algebra_simps)
  have Asb_pos: "0 < As_balanced" using K ab pos by (simp add: Asb)
  have calc: "ULS_calculate_alpha eps_cu3 eps_yd As Es fcd width d fyd lambda_factor netta
      = (if As \<le> As_balanced then ULS_alpha_under As fcd width d fyd lambda_factor netta
         else ULS_alpha_over eps_cu3 As Es fcd width d lambda_factor netta)"
    using bal pos S
    by (auto simp add: ULS_calculate_alpha_def ULS_As_balanced_def py_div_def and_then_simps
        S_def split: if_splits)
  have over: "ULS_alpha_over eps_cu3 A Es fcd width d lambda_factor netta
        = Inr ((- (eps_cu3 * Es * A) + sqrt ((eps_cu3 * Es * A)\<^sup>2 - 4 * K * (- eps_cu3 * Es * A)))
                / (2 * K))
      \<and> ULS_quadratic eps_cu3 A Es fcd width d lambda_factor netta
          ((- (eps_cu3 * Es * A) + sqrt ((eps_cu3 * Es * A)\<^sup>2 - 4 * K * (- eps_cu3 * Es * A)))
                / (2 * K)) = 0
      \<and> 0 < (- (eps_cu3 * Es * A) + sqrt ((eps_cu3 * Es * A)\<^sup>2 - 4 * K * (- eps_cu3 * Es * A)))
                / (2 * K)"
    if A: "0 < A" for A
  proof -
    define b where "b = eps_cu3 * Es * A"
    have b: "0 < b" using pos A by (simp add: b_def)
    have disc: "0 \<le> b\<^sup>2 - 4 * K * (- b)" using K b by simp
    have 1: "ULS_alpha_over eps_cu3 A Es fcd width d lambda_factor netta
        = Inr ((- b + sqrt (b\<^sup>2 - 4 * K * (- b))) / (2 * K))"
      using abc_formula_value [OF K disc]
      by (simp add: ULS_alpha_over_def Let_def K_def b_def)
    have 2: "K * ((- b + sqrt (b\<^sup>2 - 4 * K * (- b))) / (2 * K))\<^sup>2
        + b * ((- b + sqrt (b\<^sup>2 - 4 * K * (- b))) / (2 * K)) + (- b) = 0"
      using larger_root_is_root [OF K disc] by simp
    have 3: "0 < (- b + sqrt (b\<^sup>2 - 4 * K * (- b))) / (2 * K)"
      using larger_root_in_unit_interval (1) [of K "- b" b] K b by simp
    show ?thesis using 1 2 3 by (simp add: ULS_quadratic_def Let_def K_def b_def)
  qed
  have largest: "x \<le> (- (eps_cu3 * Es * A) + sqrt ((eps_cu3 * Es * A)\<^sup>2 - 4 * K * (- eps_cu3 * Es * A)))
                / (2 * K)"
    if "ULS_quadratic eps_cu3 A Es fcd width d lambda_factor netta x = 0" for A x
    using larger_root_is_largest [OF K, of x "eps_cu3 * Es * A" "- eps_cu3 * Es * A"] that
    by (simp add: ULS_quadratic_def Let_def K_def)
  have under_bal: "ULS_alpha_under As_balanced fcd width d fyd lambda_factor netta = Inr alpha_bal"
    using K pos by (simp add: ULS_alpha_under_def py_div_def Asb K_def [symmetric])
  have root_bal: "ULS_quadratic eps_cu3 As_balanced Es fcd width d lambda_factor netta alpha_bal = 0"
  proof -
    have e: "eps_yd * Es = fyd" using pos yield by simp
    have "eps_cu3 * Es * As_balanced * (1 - alpha_bal) = K * alpha_bal * alpha_bal"
    proof -
      have "1 - alpha_bal = eps_yd / S" using S by (simp add: alpha_bal_def S_def field_simps)
      then have "eps_cu3 * Es * As_balanced * (1 - alpha_bal)
          = (eps_cu3 / S) * (K * alpha_bal) * ((eps_yd * Es) / fyd)"
        by (simp add: Asb mult_ac)
      also have "\<dots> = alpha_bal * (K * alpha_bal)" using pos by (simp add: e alpha_bal_def)
      finally show ?thesis by (simp add: mult_ac)
    qed
    moreover have "K * alpha_bal\<^sup>2 + eps_cu3 * Es * As_balanced * alpha_bal
        + - eps_cu3 * Es * As_balanced
        = K * alpha_bal * alpha_bal - eps_cu3 * Es * As_balanced * (1 - alpha_bal)"
      by (simp add: power2_eq_square algebra_simps)
    ultimately have "K * alpha_bal\<^sup>2 + eps_cu3 * Es * As_balanced * alpha_bal
        + - eps_cu3 * Es * As_balanced = 0"
      by simp
    then show ?thesis
      by (simp add: ULS_quadratic_def Let_def K_def)
  qed
  have over_bal: "ULS_alpha_over eps_cu3 As_balanced Es fcd width d lambda_factor netta = Inr alpha_bal"
  proof -
    let ?r = "(- (eps_cu3 * Es * As_balanced)
        + sqrt ((eps_cu3 * Es * As_balanced)\<^sup>2 - 4 * K * (- eps_cu3 * Es * As_balanced))) / (2 * K)"
    note o = over [OF Asb_pos]
    have "K * ?r\<^sup>2 + (eps_cu3 * Es * As_balanced) * ?r + (- eps_cu3 * Es * As_balanced) = 0"
      using o by (simp add: ULS_quadratic_def Let_def K_def)
    moreover have "K * alpha_bal\<^sup>2 + (eps_cu3 * Es * As_balanced) * alpha_bal
        + (- eps_cu3 * Es * As_balanced) = 0"
      using root_bal by (simp add: ULS_quadratic_def Let_def K_def)
    moreover have "0 \<le> eps_cu3 * Es * As_balanced" using pos Asb_pos by simp
    moreover have "0 < ?r" using o by simp
    ultimately have "?r = alpha_bal"
      using positive_roots_equal [OF K, of "eps_cu3 * Es * As_balanced" ?r alpha_bal] ab by blast
    then show ?thesis using o by simp
  qed
  show ?thesis
  proof (intro conjI impI)
    assume "As \<le> As_balanced"
    then show "ULS_calculate_alpha eps_cu3 eps_yd As Es fcd width d fyd lambda_factor netta
              = ULS_alpha_under As fcd width d fyd lambda_factor netta"
      by (simp add: calc)
  next
    assume "As_balanced < As"
    then show "ULS_calculate_alpha eps_cu3 eps_yd As Es fcd width d fyd lambda_factor netta
              = ULS_alpha_over eps_cu3 As Es fcd width d lambda_factor netta"
      by (simp add: calc)
  next
    assume "As_balanced < As"
    then have "0 < As" using Asb_pos by linarith
    from over [OF this] largest [of As]
    show "\<exists>r. ULS_alpha_over eps_cu3 As Es fcd width d lambda_factor netta = Inr r
                 \<and> ULS_quadratic eps_cu3 As Es fcd width d lambda_factor netta r = 0
                 \<and> (\<forall>x. ULS_quadratic eps_cu3 As Es fcd width d lambda_factor netta x = 0
                        \<longrightarrow> x \<le> r)"
      by blast
  next
    show "ULS_alpha_over eps_cu3 As_balanced Es fcd width d lambda_factor netta
           = ULS_alpha_under As_balanced fcd width d fyd lambda_factor netta"
      by (simp add: over_bal under_bal)
  next
    show "ULS_alpha_under As_balanced fcd width d fyd lambda_factor netta
           = Inr (eps_cu3 / (eps_cu3 + eps_yd))"
      by (simp add: under_bal alpha_bal_def S_def)
  qed
qed

lemma ULS_calculate_alpha_isCont:
  assumes pos: "0 < eps_cu3" "0 < Es" "0 < fcd" "0 < width" "0 < d" "0 < fyd"
      "0 < lambda_factor" "0 < netta"
    and yield: "eps_yd = fyd / Es"
    and bal: "ULS_As_balanced eps_cu3 eps_yd fcd width d fyd lambda_factor netta = Inr As_balanced"
  shows "isCont (\<lambda>As. returned_number
           (ULS_calculate_alpha eps_cu3 eps_yd As Es fcd width d fyd lambda_factor netta))
         As_balanced"
proof -
  define K where "K = lambda_factor * netta * fcd * width * d"
  define k where "k = eps_cu3 * Es"
  define g where "g = (\<lambda>As. fyd * As / K)"
  define f where "f = (\<lambda>As. (- (k * As) + sqrt ((k * As)\<^sup>2 - 4 * K * (- (k * As)))) / (2 * K))"
  have K: "0 < K" using pos by (simp add: K_def)
  have k: "0 < k" using pos by (simp add: k_def)
  note t = ULS_calculate_alpha_balance [OF pos yield bal]
  have Asb: "0 < As_balanced"
  proof -
    have "0 < eps_cu3 + eps_yd" using pos yield by (simp add: add_pos_pos)
    moreover have "0 < lambda_factor * netta * (eps_cu3 / (eps_cu3 + eps_yd)) * width * d * fcd / fyd"
      using pos calculation by simp
    ultimately show ?thesis
      using bal pos by (auto simp add: ULS_As_balanced_def py_div_def and_then_simps split: if_splits)
  qed
  have under: "ULS_alpha_under As fcd width d fyd lambda_factor netta = Inr (g As)" for As
    using pos by (simp add: ULS_alpha_under_def py_div_def g_def K_def)
  have over: "ULS_alpha_over eps_cu3 As Es fcd width d lambda_factor netta = Inr (f As)"
    if "0 < As" for As
  proof -
    have "0 < k * As" using k that by simp
    then have "0 \<le> (k * As)\<^sup>2 - 4 * K * (- (k * As))" using K by simp
    from abc_formula_value [OF K this] show ?thesis
      by (simp add: ULS_alpha_over_def Let_def K_def k_def f_def)
  qed
  have eq: "(\<lambda>As. returned_number
           (ULS_calculate_alpha eps_cu3 eps_yd As Es fcd width d fyd lambda_factor netta))
      = (\<lambda>As. if As \<le> As_balanced then g As else f As)"
  proof
    fix As
    show "returned_number
           (ULS_calculate_alpha eps_cu3 eps_yd As Es fcd width d fyd lambda_factor netta)
        = (if As \<le> As_balanced then g As else f As)"
    proof (cases "As \<le> As_balanced")
      case True
      then show ?thesis using t [of As] by (simp add: under returned_number_def)
    next
      case False
      then have "0 < As" using Asb by linarith
      then show ?thesis using False t [of As] by (simp add: over returned_number_def)
    qed
  qed
  have fg: "f As_balanced = g As_balanced"
    using t [of As_balanced] by (simp add: over [OF Asb] under)
  have "isCont f As_balanced"
    using K unfolding f_def by (intro continuous_intros) simp_all
  then have "(f \<longlongrightarrow> f As_balanced) (at As_balanced)" by (simp add: isCont_def)
  then have "(f \<longlongrightarrow> g As_balanced) (at_right As_balanced)"
    unfolding fg by (rule tendsto_within_subset) simp
  moreover have "continuous (at_left As_balanced) g"
    using K unfolding g_def by (intro continuous_intros) simp_all
  ultimately show ?thesis
    unfolding eq by (rule isCont_If_ge [rotated])
qed

text \<open>
  C4.  For the ordinary-reinforced ULS solver on a material of a recognised concrete class,
  with a positive steel strength, width and effective depth: the balanced area is computed;
  for an area up to it the compression-zone factor is the under-reinforced closed form;
  for an area above it, it is the over-reinforced abc-formula, whose value is a root of the
  quadratic and no smaller than any other root; at the balanced area the two formulas give
  the same value; and the factor, as a function of the area, is continuous there.
\<close>

theorem ULS_alpha_branches_agree_at_balance:
  assumes mat: "Material concrete_class steel_class prestress_name prestress_diameter = Inr m"
    and pos: "0 < steel_class" "0 < width" "0 < d"
  shows "\<exists>As_balanced.
       ULS_As_balanced (m_eps_cu3 m) (m_eps_yd m) (m_fcd m) width d (m_fyd m)
           (m_lambda_factor m) (m_netta m) = Inr As_balanced
     \<and> (\<forall>As. As \<le> As_balanced \<longrightarrow>
            ULS_alpha m As width d
              = ULS_alpha_under As (m_fcd m) width d (m_fyd m) (m_lambda_factor m) (m_netta m))
     \<and> (\<forall>As. As_balanced < As \<longrightarrow>
            ULS_alpha m As width d
              = ULS_alpha_over (m_eps_cu3 m) As (m_Es m) (m_fcd m) width d
                  (m_lambda_factor m) (m_netta m)
            \<and> (\<exists>r. ULS_alpha m As width d = Inr r
                 \<and> ULS_quadratic (m_eps_cu3 m) As (m_Es m) (m_fcd m) width d
                       (m_lambda_factor m) (m_netta m) r = 0
                 \<and> (\<forall>x. ULS_quadratic (m_eps_cu3 m) As (m_Es m) (m_fcd m) width d
                       (m_lambda_factor m) (m_netta m) x = 0 \<longrightarrow> x \<le> r)))
     \<and> ULS_alpha_over (m_eps_cu3 m) As_balanced (m_Es m) (m_fcd m) width d
           (m_lambda_factor m) (m_netta m)
         = ULS_alpha_under As_balanced (m_fcd m) width d (m_fyd m) (m_lambda_factor m) (m_netta m)
     \<and> isCont (\<lambda>As. returned_number (ULS_alpha m As width d)) As_balanced"
proof -
  note f = Material_facts [OF mat]
  have p: "0 < m_eps_cu3 m" "0 < m_Es m" "0 < m_fcd m" "0 < width" "0 < d" "0 < m_fyd m"
    "0 < m_lambda_factor m" "0 < m_netta m"
    using f pos by simp_all
  have sum: "m_eps_cu3 m + m_eps_yd m \<noteq> 0" "m_fyd m \<noteq> 0"
    using p f(7) by (simp_all add: add_pos_pos less_imp_neq [THEN not_sym])
  then obtain Asb where bal: "ULS_As_balanced (m_eps_cu3 m) (m_eps_yd m) (m_fcd m) width d
      (m_fyd m) (m_lambda_factor m) (m_netta m) = Inr Asb"
    by (simp add: ULS_As_balanced_def py_div_def and_then_simps)
  note t = ULS_calculate_alpha_balance [OF p f(7) bal]
  have under: "ULS_alpha m As width d
        = ULS_alpha_under As (m_fcd m) width d (m_fyd m) (m_lambda_factor m) (m_netta m)"
    if "As \<le> Asb" for As
    using t [of As] that by (simp add: ULS_alpha_def)
  have over: "ULS_alpha m As width d
        = ULS_alpha_over (m_eps_cu3 m) As (m_Es m) (m_fcd m) width d
            (m_lambda_factor m) (m_netta m)
      \<and> (\<exists>r. ULS_alpha m As width d = Inr r
         \<and> ULS_quadratic (m_eps_cu3 m) As (m_Es m) (m_fcd m) width d
               (m_lambda_factor m) (m_netta m) r = 0
         \<and> (\<forall>x. ULS_quadratic (m_eps_cu3 m) As (m_Es m) (m_fcd m) width d
               (m_lambda_factor m) (m_netta m) x = 0 \<longrightarrow> x \<le> r))"
    if "Asb < As" for As
    using t [of As] that by (simp add: ULS_alpha_def)
  have agree: "ULS_alpha_over (m_eps_cu3 m) Asb (m_Es m) (m_fcd m) width d
           (m_lambda_factor m) (m_netta m)
         = ULS_alpha_under Asb (m_fcd m) width d (m_fyd m) (m_lambda_factor m) (m_netta m)"
    using t [of Asb] by simp
  from under have all_under: "\<forall>As. As \<le> Asb \<longrightarrow> ULS_alpha m As width d
        = ULS_alpha_under As (m_fcd m) width d (m_fyd m) (m_lambda_factor m) (m_netta m)"
    by blast
  from over have all_over: "\<forall>As. Asb < As \<longrightarrow>
        ULS_alpha m As width d
          = ULS_alpha_over (m_eps_cu3 m) As (m_Es m) (m_fcd m) width d
              (m_lambda_factor m) (m_netta m)
        \<and> (\<exists>r. ULS_alpha m As width d = Inr r
           \<and> ULS_quadratic (m_eps_cu3 m) As (m_Es m) (m_fcd m) width d
                 (m_lambda_factor m) (m_netta m) r = 0
           \<and> (\<forall>x. ULS_quadratic (m_eps_cu3 m) As (m_Es m) (m_fcd m) width d
                 (m_lambda_factor m) (m_netta m) x = 0 \<longrightarrow> x \<le> r))"
    by blast
  have cont: "isCont (\<lambda>As. returned_number (ULS_alpha m As width d)) Asb"
    unfolding ULS_alpha_def by (rule ULS_calculate_alpha_isCont [OF p f(7) bal])
  show ?thesis
    by (rule exI [of _ Asb]) (intro conjI bal all_under all_over agree cont)
qed

text \<open>
  The theorem at C30 with B500 steel, a width of 300 mm and an effective depth of 750 mm:
  the balanced area is 125902/29 (about 4341 mm2); 1256 mm2 is under-reinforced and
  5000 mm2 over-reinforced.
\<close>

theorem ULS_alpha_branches_agree_at_balance_witness:
  "Material ''C30'' 500 None 0 = Inr C30_B500
   \<and> ULS_As_balanced (7 / 2000) (1 / 460) 17 300 750 (10000 / 23) (4 / 5) 1 = Inr (125902 / 29)
   \<and> ULS_alpha C30_B500 1256 300 750 = ULS_alpha_under 1256 17 300 750 (10000 / 23) (4 / 5) 1
   \<and> ULS_alpha C30_B500 5000 300 750 = ULS_alpha_over (7 / 2000) 5000 200000 17 300 750 (4 / 5) 1
   \<and> ULS_alpha_over (7 / 2000) (125902 / 29) 200000 17 300 750 (4 / 5) 1
       = ULS_alpha_under (125902 / 29) 17 300 750 (10000 / 23) (4 / 5) 1"
proof -
  have bal: "ULS_As_balanced (7 / 2000) (1 / 460) 17 300 750 (10000 / 23) (4 / 5) 1
      = Inr (125902 / 29)"
    by (simp add: ULS_As_balanced_def py_div_def and_then_simps)
  have pos: "(0::real) < 500" "(0::real) < 300" "(0::real) < 750" by simp_all
  have under: "(1256::real) \<le> 125902 / 29" and over: "(125902 / 29 :: real) < 5000" by simp_all
  from ULS_alpha_branches_agree_at_balance [OF Material_C30_B500 pos]
  obtain Asb where t:
    "ULS_As_balanced (m_eps_cu3 C30_B500) (m_eps_yd C30_B500) (m_fcd C30_B500) 300 750
       (m_fyd C30_B500) (m_lambda_factor C30_B500) (m_netta C30_B500) = Inr Asb"
    "\<forall>As. As \<le> Asb \<longrightarrow> ULS_alpha C30_B500 As 300 750
       = ULS_alpha_under As (m_fcd C30_B500) 300 750 (m_fyd C30_B500)
           (m_lambda_factor C30_B500) (m_netta C30_B500)"
    "\<forall>As. Asb < As \<longrightarrow> ULS_alpha C30_B500 As 300 750
       = ULS_alpha_over (m_eps_cu3 C30_B500) As (m_Es C30_B500) (m_fcd C30_B500) 300 750
           (m_lambda_factor C30_B500) (m_netta C30_B500)"
    "ULS_alpha_over (m_eps_cu3 C30_B500) Asb (m_Es C30_B500) (m_fcd C30_B500) 300 750
           (m_lambda_factor C30_B500) (m_netta C30_B500)
       = ULS_alpha_under Asb (m_fcd C30_B500) 300 750 (m_fyd C30_B500)
           (m_lambda_factor C30_B500) (m_netta C30_B500)"
    by blast
  have Asb: "Asb = 125902 / 29" using t(1) bal by (simp add: C30_B500_def)
  show ?thesis
    using Material_C30_B500 bal t(2) [rule_format, of 1256] t(3) [rule_format, of 5000] t(4)
      under over
    by (simp add: Asb C30_B500_def)
qed

subsection \<open>The range of the compression-zone factor\<close>

text \<open>
  The ordinary-reinforced solver with positive data returns a factor in (0, 1).  The solver
  for prestressing with ordinary reinforcement in the top does so when the prestressing
  force at design strength exceeds the force of the ordinary bars, the effective prestrain
  is below the design yield strain, and the force at the effective prestrain is below the
  force of the fully compressed section plus that of the ordinary bars.
\<close>

lemma ULS_calculate_alpha_range:
  assumes pos: "0 < eps_cu3" "0 < fcd" "0 < width" "0 < d" "0 < fyd" "0 < lambda_factor"
      "0 < netta"
    and ord: "0 < eps_yd" "0 < Es" "0 < As"
  shows "\<exists>alpha. ULS_calculate_alpha eps_cu3 eps_yd As Es fcd width d fyd lambda_factor netta
            = Inr alpha \<and> 0 < alpha \<and> alpha < 1"
proof -
  define K where "K = lambda_factor * netta * fcd * width * d"
  define S where "S = eps_cu3 + eps_yd"
  define alpha_bal where "alpha_bal = eps_cu3 / S"
  define Asb where "Asb = K * alpha_bal / fyd"
  have K: "0 < K" using pos by (simp add: K_def)
  have S: "0 < S" using pos ord by (simp add: S_def)
  have ab: "alpha_bal < 1" using pos ord S by (simp add: alpha_bal_def S_def)
  have calc: "ULS_calculate_alpha eps_cu3 eps_yd As Es fcd width d fyd lambda_factor netta
      = (if As \<le> Asb then ULS_alpha_under As fcd width d fyd lambda_factor netta
         else ULS_alpha_over eps_cu3 As Es fcd width d lambda_factor netta)"
  proof -
    have "lambda_factor * netta * (eps_cu3 / (eps_cu3 + eps_yd)) * width * d * fcd / fyd = Asb"
      by (simp add: Asb_def K_def alpha_bal_def S_def mult_ac)
    then show ?thesis
      using pos S
      by (auto simp add: ULS_calculate_alpha_def py_div_def and_then_simps S_def)
  qed
  show ?thesis
  proof (cases "As \<le> Asb")
    case True
    have u: "ULS_alpha_under As fcd width d fyd lambda_factor netta = Inr (fyd * As / K)"
      using pos by (simp add: ULS_alpha_under_def py_div_def K_def)
    have "0 < fyd * As / K" using pos ord K by simp
    moreover have "fyd * As / K < 1"
    proof -
      have "As * fyd \<le> K * alpha_bal" using True pos by (simp add: Asb_def pos_le_divide_eq)
      then have "fyd * As / K \<le> alpha_bal" using K by (simp add: pos_divide_le_eq mult_ac)
      then show ?thesis using ab by linarith
    qed
    ultimately show ?thesis using True by (simp add: calc u)
  next
    case False
    define b where "b = eps_cu3 * Es * As"
    have b: "0 < b" using pos ord by (simp add: b_def)
    have disc: "0 \<le> b\<^sup>2 - 4 * K * (- b)" using K b by simp
    have o: "ULS_alpha_over eps_cu3 As Es fcd width d lambda_factor netta
        = Inr ((- b + sqrt (b\<^sup>2 - 4 * K * (- b))) / (2 * K))"
      using abc_formula_value [OF K disc] by (simp add: ULS_alpha_over_def Let_def K_def b_def)
    have "0 < (- b + sqrt (b\<^sup>2 - 4 * K * (- b))) / (2 * K)"
      "(- b + sqrt (b\<^sup>2 - 4 * K * (- b))) / (2 * K) < 1"
      using larger_root_in_unit_interval [of K "- b" b] K b by simp_all
    then show ?thesis using False by (simp add: calc o)
  qed
qed

lemma ULS_prestress_and_ordinary_alpha_range:
  assumes pos: "0 < eps_cu3" "0 < fcd" "0 < width" "0 < d" "0 < fyd" "0 < lambda_factor"
      "0 < netta"
    and pre: "0 < Ep" "0 < fpd" "0 < Ap" "eps_diff < fpd / Ep" "fyd * As < fpd * Ap"
      "eps_diff * Ep * Ap < netta * lambda_factor * fcd * width * d + fyd * As"
  shows "\<exists>alpha. ULS_prestress_and_ordinary_calculate_alpha eps_cu3 Ap Ep fcd eps_diff width d
            fpd lambda_factor netta fyd As = Inr alpha \<and> 0 < alpha \<and> alpha < 1"
proof -
  define K where "K = netta * lambda_factor * fcd * width * d"
  define T where "T = eps_cu3 + fpd / Ep - eps_diff"
  define alpha_b where "alpha_b = eps_cu3 / T"
  define Apb where "Apb = (K * alpha_b + fyd * As) / fpd"
  have K: "0 < K" using pos by (simp add: K_def)
  have T: "eps_cu3 < T" using pre by (simp add: T_def)
  then have T0: "0 < T" using pos by linarith
  have ab: "alpha_b < 1" using T T0 by (simp add: alpha_b_def)
  have calc: "ULS_prestress_and_ordinary_calculate_alpha eps_cu3 Ap Ep fcd eps_diff width d
            fpd lambda_factor netta fyd As
      = and_then
          (if Ap \<le> Apb then py_div (fpd * Ap - fyd * As) K
           else abc_formula K (fyd * As + (eps_cu3 - eps_diff) * Ep * Ap) (- eps_cu3 * Ep * Ap))
          (\<lambda>alpha. Inr \<bar>alpha\<bar>)"
  proof -
    have "(netta * lambda_factor * (eps_cu3 / (eps_cu3 + fpd / Ep - eps_diff)) * width * d * fcd
        + fyd * As) / fpd = Apb"
      by (simp add: Apb_def K_def alpha_b_def T_def mult_ac)
    then show ?thesis
      using pre T0
      by (auto simp add: ULS_prestress_and_ordinary_calculate_alpha_def py_div_def
          and_then_simps T_def K_def Let_def)
  qed
  show ?thesis
  proof (cases "Ap \<le> Apb")
    case True
    define v where "v = (fpd * Ap - fyd * As) / K"
    have v0: "0 < v" using pre K by (simp add: v_def)
    have "fpd * Ap \<le> K * alpha_b + fyd * As"
      using True pre by (simp add: Apb_def pos_le_divide_eq mult_ac)
    then have "fpd * Ap - fyd * As \<le> alpha_b * K" by (simp add: mult_ac)
    then have "v \<le> alpha_b" using K by (simp add: v_def pos_divide_le_eq)
    then have v1: "v < 1" using ab by linarith
    have "ULS_prestress_and_ordinary_calculate_alpha eps_cu3 Ap Ep fcd eps_diff width d
            fpd lambda_factor netta fyd As = Inr \<bar>v\<bar>"
      using True K by (simp add: calc py_div_def and_then_simps v_def less_imp_neq [THEN not_sym])
    then show ?thesis using v0 v1 by simp
  next
    case False
    define b where "b = fyd * As + (eps_cu3 - eps_diff) * Ep * Ap"
    define c where "c = - eps_cu3 * Ep * Ap"
    have c: "c < 0" using pos pre by (simp add: c_def)
    have "0 \<le> K * (- c)" using K c by (intro mult_nonneg_nonneg) simp_all
    then have "0 \<le> 4 * (K * (- c))" by linarith
    moreover have "b\<^sup>2 - 4 * K * c = b\<^sup>2 + 4 * (K * (- c))" by simp
    moreover have "0 \<le> b\<^sup>2" by simp
    ultimately have disc: "0 \<le> b\<^sup>2 - 4 * K * c" by linarith
    have sum: "0 < K + b + c"
    proof -
      have "K + b + c = K + fyd * As - eps_diff * Ep * Ap"
        by (simp add: b_def c_def algebra_simps)
      then show ?thesis using pre(6) by (simp add: K_def)
    qed
    define r where "r = (- b + sqrt (b\<^sup>2 - 4 * K * c)) / (2 * K)"
    have r: "0 < r" "r < 1"
      using larger_root_in_unit_interval [OF K c sum] by (simp_all add: r_def)
    have "ULS_prestress_and_ordinary_calculate_alpha eps_cu3 Ap Ep fcd eps_diff width d
            fpd lambda_factor netta fyd As = Inr \<bar>r\<bar>"
      using False abc_formula_value [OF K disc]
      by (simp add: calc and_then_simps r_def b_def c_def)
    then show ?thesis using r by simp
  qed
qed

text \<open>
  C8, as the code has it.  With positive material and section values: the ordinary-reinforced
  ULS solve with a positive reinforcement area returns a compression-zone factor strictly
  between 0 and 1; the solve for prestressing with ordinary top reinforcement returns one
  strictly between 0 and 1 when fyd As < fpd Ap, eps_diff < fpd / Ep and
  eps_diff Ep Ap < netta lambda fcd width d + fyd As.
\<close>

theorem ULS_alpha_in_unit_interval:
  assumes "0 < eps_cu3" "0 < fcd" "0 < width" "0 < fyd" "0 < lambda_factor" "0 < netta"
  shows "(0 < d_1 \<and> 0 < eps_yd \<and> 0 < Es \<and> 0 < As \<longrightarrow>
            (\<exists>alpha. ULS_calculate_alpha eps_cu3 eps_yd As Es fcd width d_1 fyd lambda_factor netta
                 = Inr alpha \<and> 0 < alpha \<and> alpha < 1))
       \<and> (0 < d_2 \<and> 0 < Ep \<and> 0 < fpd \<and> 0 < Ap \<and> eps_diff < fpd / Ep
            \<and> fyd * As < fpd * Ap
            \<and> eps_diff * Ep * Ap < netta * lambda_factor * fcd * width * d_2 + fyd * As \<longrightarrow>
            (\<exists>alpha. ULS_prestress_and_ordinary_calculate_alpha eps_cu3 Ap Ep fcd eps_diff width
                   d_2 fpd lambda_factor netta fyd As = Inr alpha \<and> 0 < alpha \<and> alpha < 1))"
  using assms ULS_calculate_alpha_range [of eps_cu3 fcd width d_1 fyd lambda_factor netta eps_yd Es As]
    ULS_prestress_and_ordinary_alpha_range [of eps_cu3 fcd width d_2 fyd lambda_factor netta Ep fpd
      Ap eps_diff As]
  by blast

text \<open>
  The theorem at C30 with B500 bars (4 bars of 20 mm, 1256 mm2) in a 300 mm wide section of
  effective depth 750 mm, and with 560 mm2 of strand of design strength 1400 N/mm2 at an
  effective prestrain of 0.006.
\<close>

theorem ULS_alpha_in_unit_interval_witness:
  "(\<exists>alpha. ULS_calculate_alpha 0.0035 (1 / 460) 1256 200000 17 300 750 (10000 / 23) 0.8 1
        = Inr alpha \<and> 0 < alpha \<and> alpha < 1)
   \<and> (\<exists>alpha. ULS_prestress_and_ordinary_calculate_alpha 0.0035 560 195000 17 0.006 300 750 1400
        0.8 1 (10000 / 23) 1256 = Inr alpha \<and> 0 < alpha \<and> alpha < 1)"
proof -
  have pos: "(0::real) < 0.0035" "(0::real) < 17" "(0::real) < 300" "(0::real) < 10000 / 23"
    "(0::real) < 0.8" "(0::real) < 1"
    by simp_all
  have ord: "(0::real) < 750 \<and> (0::real) < 1 / 460 \<and> (0::real) < 200000 \<and> (0::real) < 1256"
    by simp
  have pre: "(0::real) < 750 \<and> (0::real) < 195000 \<and> (0::real) < 1400 \<and> (0::real) < 560
      \<and> (0.006::real) < 1400 / 195000 \<and> (10000 / 23 :: real) * 1256 < 1400 * 560
      \<and> (0.006::real) * 195000 * 560 < 1 * 0.8 * 17 * 300 * 750 + 10000 / 23 * 1256"
    by simp
  show ?thesis
    using ord pre
      ULS_alpha_in_unit_interval [OF pos, of 750 "1 / 460" 200000 1256 750 195000 1400 560 "0.006"]
    by blast
qed

text \<open>
  Without those conditions the claim fails for the solver with ordinary top reinforcement:
  with 100 mm2 of strand against 4000 mm2 of ordinary bars in a 200 mm wide section of
  effective depth 350 mm the under-reinforced branch gives (140000 - 1600000) / 952000,
  and the method returns its absolute value 365/238, which is above 1.
\<close>

theorem ULS_alpha_above_one_counterexample:
  "ULS_prestress_and_ordinary_calculate_alpha 0.0035 100 195000 17 0.006 200 350 1400 0.8 1 400 4000
     = Inr (365 / 238)
   \<and> \<not> (365 / 238 < (1::real))"
  by (simp add: ULS_prestress_and_ordinary_calculate_alpha_def py_div_def and_then_simps Let_def)

subsection \<open>Creep numbers\<close>

text \<open>
  For a positive section, a positive mean strength, a humidity of at most 100 percent, a
  cement class S, N or R and loading ages before the considered time, every factor is
  computed and positive, and the development factor depends on the loading age.
\<close>

lemma calculate_beta_fcm_positive:
  "0 < fcm \<Longrightarrow> positive_result (calculate_beta_fcm fcm)"
  by (simp add: calculate_beta_fcm_def py_pow_def py_div_def and_then_simps positive_result_def)

lemma calculate_phi_RH_positive:
  assumes "0 < fcm" "0 < h0" "RH \<le> 100"
  shows "positive_result (calculate_phi_RH h0 fcm RH)"
proof -
  define q where "q = (1 - RH / 100) / (0.1 * h0 powr (1 / 3))"
  have h: "0 < h0 powr (1 / 3)" using assms(2) by simp
  have q: "0 \<le> q" using assms(3) h by (simp add: q_def)
  have a: "0 < (35 / fcm) powr 0.7" "0 < (35 / fcm) powr 0.2" using assms(1) by simp_all
  have v: "calculate_phi_RH h0 fcm RH
      = Inr (if fcm \<le> 35 then 1 + q else (1 + q * (35 / fcm) powr 0.7) * (35 / fcm) powr 0.2)"
    using assms(1,2)
    by (simp add: calculate_phi_RH_def py_div_def py_pow_def and_then_simps q_def)
  have "0 < 1 + q" using q by linarith
  moreover have "0 < (1 + q * (35 / fcm) powr 0.7) * (35 / fcm) powr 0.2"
    using q a by (intro mult_pos_pos add_pos_nonneg mult_nonneg_nonneg) simp_all
  ultimately show ?thesis by (simp add: v positive_result_def)
qed

lemma calculate_t0_adjusted_positive:
  assumes "0 \<le> t0" "cement_class \<in> set [''S'', ''N'', ''R'']"
  shows "positive_result (calculate_t0_adjusted t0 cement_class)"
proof -
  have p: "0 \<le> t0 powr 1.2" by simp
  then have d: "2 + t0 powr 1.2 \<noteq> 0" by linarith
  have "0 \<le> 9 / (2 + t0 powr 1.2)" using p by simp
  then have q: "9 / (2 + t0 powr 1.2) + 1 \<noteq> 0" by linarith
  have m: "0 < max x (0.5::real)" for x by (simp add: max_def)
  show ?thesis
    using assms d q m
    by (auto simp add: calculate_t0_adjusted_def py_pow_def py_div_def and_then_simps
        positive_result_def)
qed

lemma calculate_beta_t0_positive:
  assumes "0 \<le> t0_adjusted"
  shows "positive_result (calculate_beta_t0 t0_adjusted)"
proof -
  have p: "0 \<le> t0_adjusted powr 0.2" by simp
  then have "0 < 0.1 + t0_adjusted powr 0.2" by linarith
  then show ?thesis
    using assms
    by (simp add: calculate_beta_t0_def py_pow_def py_div_def and_then_simps positive_result_def
        less_imp_neq [THEN not_sym])
qed

lemma calculate_beta_H_positive:
  assumes "0 < fcm" "0 \<le> h0"
  shows "positive_result (calculate_beta_H RH h0 fcm)"
proof -
  have a: "0 < (35 / fcm) powr 0.5" using assms(1) by simp
  have e: "0 \<le> (0.012 * RH) ^ 18" by simp
  have x: "0 \<le> 1.5 * (1 + (0.012 * RH) ^ 18) * h0"
    using e assms(2) by (intro mult_nonneg_nonneg) simp_all
  have "0 < min (1.5 * (1 + (0.012 * RH) ^ 18) * h0 + 250) 1500"
    using x by (simp add: min_def)
  moreover have "0 < min (1.5 * (1 + (0.012 * RH) ^ 18) * h0 + 250 * (35 / fcm) powr 0.5)
      (1500 * (35 / fcm) powr 0.5)"
    using x a by (simp add: min_def add_nonneg_pos)
  ultimately show ?thesis
    using assms(1)
    by (simp add: calculate_beta_H_def py_div_def py_pow_def and_then_simps positive_result_def)
qed

lemma calculate_beta_c_value:
  assumes "calculate_beta_H RH h0 fcm = Inr beta_H" "0 < beta_H" "t0 \<le> t"
  shows "calculate_beta_c t0 t RH h0 fcm = Inr (((t - t0) / (beta_H + t - t0)) powr 0.3)"
proof -
  have d: "0 < beta_H + t - t0" using assms(2,3) by linarith
  then have "0 \<le> (t - t0) / (beta_H + t - t0)" using assms(3) by simp
  then show ?thesis
    using d
    by (simp add: calculate_beta_c_def assms(1) py_div_def py_pow_def and_then_simps
        less_imp_neq [THEN not_sym] not_less [symmetric])
qed

lemma development_factor_injective:
  fixes beta_H t t1 t2 :: real
  assumes "0 < beta_H" "t1 < t" "t2 < t" "t1 \<noteq> t2"
  shows "((t - t1) / (beta_H + t - t1)) powr 0.3 \<noteq> ((t - t2) / (beta_H + t - t2)) powr 0.3"
proof
  assume eq: "((t - t1) / (beta_H + t - t1)) powr 0.3 = ((t - t2) / (beta_H + t - t2)) powr 0.3"
  have p1: "0 < (t - t1) / (beta_H + t - t1)" using assms by simp
  have p2: "0 < (t - t2) / (beta_H + t - t2)" using assms by simp
  have "(t - t1) / (beta_H + t - t1) = (t - t2) / (beta_H + t - t2)"
  proof (rule ccontr)
    assume "(t - t1) / (beta_H + t - t1) \<noteq> (t - t2) / (beta_H + t - t2)"
    then consider "(t - t1) / (beta_H + t - t1) < (t - t2) / (beta_H + t - t2)"
      | "(t - t2) / (beta_H + t - t2) < (t - t1) / (beta_H + t - t1)"
      by linarith
    then show False
    proof cases
      case 1
      from powr_less_mono2 [OF _ _ 1, of "0.3"] p1 eq show False by simp
    next
      case 2
      from powr_less_mono2 [OF _ _ 2, of "0.3"] p2 eq show False by simp
    qed
  qed
  moreover have "0 < beta_H + t - t1" "0 < beta_H + t - t2" using assms by linarith+
  ultimately have "(t - t1) * (beta_H + t - t2) = (t - t2) * (beta_H + t - t1)"
    by (simp add: frac_eq_eq)
  then have "beta_H * (t2 - t1) = 0" by (simp add: algebra_simps)
  then show False using assms(1,4) by simp
qed


lemma Creep_number_liveload:
  assumes size: "0 < Ac" "0 < width" "0 < height"
    and mat: "0 < fcm" "RH \<le> 100" "cement_class \<in> set [''S'', ''N'', ''R'']"
    and ages: "0 \<le> t0_self" "0 \<le> t0_live" "t0_self < t" "t0_live < t" "t0_self \<noteq> t0_live"
  shows "\<exists>c beta_c_self beta_c_live.
       Creep_number Ac width height fcm t0_self t0_live RH cement_class t = Inr c
     \<and> calculate_beta_c t0_self t RH (cr_h0 c) fcm = Inr beta_c_self
     \<and> calculate_beta_c t0_live t RH (cr_h0 c) fcm = Inr beta_c_live
     \<and> cr_phi_selfload c = cr_phi_0_self c * beta_c_self
     \<and> cr_phi_liveload c = cr_phi_0_live c * beta_c_self
     \<and> cr_phi_liveload c \<noteq> cr_phi_0_live c * beta_c_live"
proof -
  define h0 where "h0 = 2 * Ac / (2 * (width + height))"
  have h0: "calculate_h0 Ac width height = Inr h0" "0 < h0"
    using size by (simp_all add: calculate_h0_def py_div_def h0_def)
  obtain beta_fcm where bf: "calculate_beta_fcm fcm = Inr beta_fcm" "0 < beta_fcm"
    using calculate_beta_fcm_positive [OF mat(1)] by (rule positive_resultE)
  obtain phi_RH where pr: "calculate_phi_RH h0 fcm RH = Inr phi_RH" "0 < phi_RH"
    using calculate_phi_RH_positive [OF mat(1) h0(2) mat(2)] by (rule positive_resultE)
  obtain ts where ts: "calculate_t0_adjusted t0_self cement_class = Inr ts" "0 < ts"
    using calculate_t0_adjusted_positive [OF ages(1) mat(3)] by (rule positive_resultE)
  obtain tl where tl: "calculate_t0_adjusted t0_live cement_class = Inr tl" "0 < tl"
    using calculate_t0_adjusted_positive [OF ages(2) mat(3)] by (rule positive_resultE)
  obtain bs where bs: "calculate_beta_t0 ts = Inr bs" "0 < bs"
    using calculate_beta_t0_positive [of ts] ts(2) by (auto elim: positive_resultE)
  obtain bl where bl: "calculate_beta_t0 tl = Inr bl" "0 < bl"
    using calculate_beta_t0_positive [of tl] tl(2) by (auto elim: positive_resultE)
  obtain beta_H where bH: "calculate_beta_H RH h0 fcm = Inr beta_H" "0 < beta_H"
    using calculate_beta_H_positive [OF mat(1), of h0 RH] h0(2)
    by (auto elim: positive_resultE)
  define cs where "cs = ((t - t0_self) / (beta_H + t - t0_self)) powr 0.3"
  define cl where "cl = ((t - t0_live) / (beta_H + t - t0_live)) powr 0.3"
  have cs: "calculate_beta_c t0_self t RH h0 fcm = Inr cs"
    using calculate_beta_c_value [OF bH, of t0_self t] ages(3) by (simp add: cs_def)
  have cl: "calculate_beta_c t0_live t RH h0 fcm = Inr cl"
    using calculate_beta_c_value [OF bH, of t0_live t] ages(4) by (simp add: cl_def)
  have ne: "cs \<noteq> cl"
    unfolding cs_def cl_def
    by (rule development_factor_injective [OF bH(2) ages(3) ages(4) ages(5)])
  define c where "c = \<lparr>cr_h0 = h0, cr_beta_fcm = beta_fcm, cr_phi_RH = phi_RH,
            cr_t0_adjusted_self = ts, cr_t0_adjusted_live = tl,
            cr_beta_t0_self = bs, cr_beta_t0_live = bl,
            cr_phi_0_self = phi_RH * beta_fcm * bs, cr_phi_0_live = phi_RH * beta_fcm * bl,
            cr_beta_c = cs,
            cr_phi_selfload = phi_RH * beta_fcm * bs * cs,
            cr_phi_liveload = phi_RH * beta_fcm * bl * cs\<rparr>"
  have C: "Creep_number Ac width height fcm t0_self t0_live RH cement_class t = Inr c"
    by (simp add: Creep_number_def h0 bf pr ts tl bs bl cs and_then_simps Let_def
        calculate_phi_0_def calcualte_phi_def c_def)
  have p0: "cr_phi_0_live c \<noteq> 0"
    using pr(2) bf(2) bl(2) by (simp add: c_def)
  have "cr_phi_liveload c \<noteq> cr_phi_0_live c * cl"
    using p0 ne by (simp add: c_def)
  moreover have "cr_h0 c = h0" "cr_phi_selfload c = cr_phi_0_self c * cs"
    "cr_phi_liveload c = cr_phi_0_live c * cs"
    by (simp_all add: c_def)
  ultimately show ?thesis using C cs cl by metis
qed

text \<open>
  C2.  Each creep number should be the product of the standardized creep number and the
  development factor of its own loading age.  In the default analysis (300 by 800 mm, C30
  with fcm = 38, self-load at 7 days, live-load at 90 days, 40 percent humidity, cement R,
  18263 days) the creep number of the live-load is its standardized creep number times the
  development factor of the self-load age, and differs from the product with the
  development factor of the live-load age.
\<close>

theorem liveload_creep_uses_selfload_age:
  "\<exists>c beta_c_self beta_c_live.
       Creep_number 240000 300 800 38 7 90 40 ''R'' 18263 = Inr c
     \<and> calculate_beta_c 7 18263 40 (cr_h0 c) 38 = Inr beta_c_self
     \<and> calculate_beta_c 90 18263 40 (cr_h0 c) 38 = Inr beta_c_live
     \<and> cr_phi_liveload c = cr_phi_0_live c * beta_c_self
     \<and> cr_phi_liveload c \<noteq> cr_phi_0_live c * beta_c_live"
proof -
  have "\<exists>c beta_c_self beta_c_live.
       Creep_number 240000 300 800 38 7 90 40 ''R'' 18263 = Inr c
     \<and> calculate_beta_c 7 18263 40 (cr_h0 c) 38 = Inr beta_c_self
     \<and> calculate_beta_c 90 18263 40 (cr_h0 c) 38 = Inr beta_c_live
     \<and> cr_phi_selfload c = cr_phi_0_self c * beta_c_self
     \<and> cr_phi_liveload c = cr_phi_0_live c * beta_c_self
     \<and> cr_phi_liveload c \<noteq> cr_phi_0_live c * beta_c_live"
    by (rule Creep_number_liveload) simp_all
  then show ?thesis by blast
qed

subsection \<open>The cracked section: the root search\<close>



















end
